theory Spec2Isabelle
  imports Complex_Main "HOL-Library.Sublist" "HOL-Library.Char_ord" "HOL-Library.List_Lexorder"
    "HOL-Library.Product_Lexorder"
begin

section \<open>Strings\<close>

text \<open>
  A JavaScript string is the sequence of its UTF-16 code units, each a number below 65536.
  \<open>js\<close> turns a literal of 8-bit characters into that sequence. The whitespace class is the
  one that \<^verbatim>\<open>\s\<close> in a regular expression and \<^verbatim>\<open>trim()\<close> share: tab, line feed, vertical tab,
  form feed, carriage return, space, U+00A0, U+1680, U+2000 to U+200A, U+2028, U+2029, U+202F,
  U+205F, U+3000 and U+FEFF. The texts of the local server and of the appointment rows are only
  stored and compared for equality; they keep the type \<open>string\<close>.
\<close>

type_synonym jstring = "nat list"

definition js :: "string \<Rightarrow> jstring" where
  "js s = map of_char s"

definition is_space :: "nat \<Rightarrow> bool" where
  "is_space c \<longleftrightarrow>
     c \<in> set [0x09, 0x0A, 0x0B, 0x0C, 0x0D, 0x20, 0xA0, 0x1680, 0x2028, 0x2029, 0x202F, 0x205F,
              0x3000, 0xFEFF]
     \<or> (0x2000 \<le> c \<and> c \<le> 0x200A)"

definition trim :: "jstring \<Rightarrow> jstring" where
  "trim s = rev (dropWhile is_space (rev (dropWhile is_space s)))"


text \<open>
  \<^verbatim>\<open>s.replace(/\s+/g, "_")\<close>: every maximal run of whitespace becomes one underscore (code
  unit 95).
\<close>

function replace_ws :: "jstring \<Rightarrow> jstring" where
  "replace_ws [] = []"
| "replace_ws (c # cs) =
     (if is_space c then 0x5F # replace_ws (dropWhile is_space cs) else c # replace_ws cs)"
  by pat_completeness auto
termination
  by (relation "measure length") (auto simp: length_dropWhile_le less_Suc_eq_le)

text \<open>Template literals print a page number in decimal; the digits are the code units from 48.\<close>

definition digit_char :: "nat \<Rightarrow> nat" where
  "digit_char d = 48 + d"

function string_of_nat :: "nat \<Rightarrow> jstring" where
  "string_of_nat n =
     (if n < 10 then [digit_char n] else string_of_nat (n div 10) @ [digit_char (n mod 10)])"
  by pat_completeness auto
termination
  by (relation "measure id") auto



section \<open>The auth gate (RequireAuth.tsx)\<close>

record profile =
  profile_id :: jstring
  role :: "jstring option"
  full_name :: jstring

text \<open>
  What the two awaited calls of \<^verbatim>\<open>checkAuth\<close> can produce. \<open>getSession\<close> rejects, resolves to
  no session, or resolves to a session (of which only \<^verbatim>\<open>session.user.id\<close> is read). The profile
  query rejects, resolves with \<^verbatim>\<open>error\<close> set, resolves with no row, or resolves with a row.
\<close>

datatype session_result = GetSessionThrows | NoSession | Session jstring

datatype profile_result = LookupThrows | LookupError | NoProfile | Found profile

text \<open>The component's three state cells, and the address the window was sent to, if any.\<close>

record gate =
  loading :: bool
  user :: "profile option"
  forbidden :: bool
  href :: "jstring option"

definition initial :: gate where
  "initial = \<lparr>loading = True, user = None, forbidden = False, href = None\<rparr>"

datatype view = Spinner | Forbidden403 | Children

text \<open>
  \<open>checkAuth\<close>, with the results of its two lookups as arguments, run on the state the
  component is in: the effect runs it again on the same component whenever the path or the
  role list changes, and nothing resets the state cells in between. The engine's
  \<open>toUpperCase\<close> and \<open>encodeURIComponent\<close> and the portal address are parameters; \<open>isMounted\<close>
  is the flag's value at the one place each path reads it.
\<close>

definition checkAuth ::
  "(jstring \<Rightarrow> jstring) \<Rightarrow> (jstring \<Rightarrow> jstring) \<Rightarrow> jstring \<Rightarrow> jstring \<Rightarrow> bool \<Rightarrow> jstring list \<Rightarrow>
   session_result \<Rightarrow> profile_result \<Rightarrow> gate \<Rightarrow> gate" where
  "checkAuth toUpperCase encodeURIComponent portal currentUrl isMounted allowedRoles sess prof st =
     (case sess of
        GetSessionThrows \<Rightarrow> (if isMounted then st\<lparr>loading := False\<rparr> else st)
      | NoSession \<Rightarrow>
          (if isMounted
           then st\<lparr>href := Some (portal @ js ''?view=login&returnTo='' @ encodeURIComponent currentUrl)\<rparr>
           else st)
      | Session uid \<Rightarrow>
          (case prof of
             LookupThrows \<Rightarrow> (if isMounted then st\<lparr>loading := False\<rparr> else st)
           | LookupError \<Rightarrow> (if isMounted then st\<lparr>loading := False\<rparr> else st)
           | NoProfile \<Rightarrow> (if isMounted then st\<lparr>loading := False\<rparr> else st)
           | Found userProfile \<Rightarrow>
               (let userRole = trim (toUpperCase (case role userProfile of None \<Rightarrow> [] | Some r \<Rightarrow> r));
                    isAllowed = list_ex (\<lambda>role. trim (toUpperCase role) = userRole) allowedRoles
                in if isMounted
                   then (if \<not> isAllowed then st\<lparr>forbidden := True\<rparr> else st\<lparr>user := Some userProfile\<rparr>)
                          \<lparr>loading := False\<rparr>
                   else st)))"

text \<open>What the component returns for a state: the spinner, the 403 card, or its children.\<close>

definition render :: "gate \<Rightarrow> view" where
  "render st = (if loading st then Spinner else if forbidden st then Forbidden403 else Children)"

text \<open>
  For the examples: upper- and lower-casing of the letters a to z, which is what the engine's
  and the store's case conversions do on strings of ASCII characters.
\<close>

definition ascii_upper :: "jstring \<Rightarrow> jstring" where
  "ascii_upper s = map (\<lambda>c. if 97 \<le> c \<and> c \<le> 122 then c - 32 else c) s"


section \<open>The local server's login (server.ts)\<close>

datatype sqlval = IntV int | TextV string

record user_row =
  u_id :: int
  username :: string
  password :: string
  u_full_name :: string

text \<open>The row object that \<^verbatim>\<open>SELECT *\<close> hands back: one entry per column, in column order.\<close>

definition row_object :: "user_row \<Rightarrow> (string \<times> sqlval) list" where
  "row_object r =
     [(''id'', IntV (u_id r)), (''username'', TextV (username r)),
      (''password'', TextV (password r)), (''full_name'', TextV (u_full_name r))]"

record response =
  status_code :: nat
  success :: bool
  user_data :: "(string \<times> sqlval) list option"
  message :: "string option"

text \<open>
  \<^verbatim>\<open>POST /api/login\<close> for a body whose \<open>username\<close> and \<open>password\<close> are strings. The query
  returns the first row equal in both columns; the rest pattern
  \<^verbatim>\<open>{ password, ...userWithoutPassword }\<close> keeps every entry but the one named \<open>password\<close>.
\<close>

definition login :: "user_row list \<Rightarrow> string \<Rightarrow> string \<Rightarrow> response" where
  "login users uname pw =
     (case find (\<lambda>r. username r = uname \<and> password r = pw) users of
        Some usr \<Rightarrow>
          \<lparr>status_code = 200, success = True,
           user_data = Some (filter (\<lambda>kv. fst kv \<noteq> ''password'') (row_object usr)),
           message = None\<rparr>
      | None \<Rightarrow>
          \<lparr>status_code = 401, success = False, user_data = None,
           message = Some ''Credenciales incorrectas''\<rparr>)"


section \<open>Appointments (server.ts, Schedule and NewAttention)\<close>

text \<open>
  A row of the appointments table. The local server numbers its rows, the hosted store gives
  them opaque identifiers, so the key type \<open>'i\<close> and the owner type \<open>'u\<close> are left open. The
  status column is text in both stores.
\<close>

record ('i, 'u) appointment =
  appt_id :: 'i
  appt_student_name :: string
  appt_grade :: string
  appt_date :: string
  appt_time :: string
  appt_status :: string
  appt_psychologist_id :: 'u
  appt_created_at :: string

record form_data =
  fd_student_name :: string
  fd_grade :: string
  fd_date :: string
  fd_time :: string

text \<open>\<^verbatim>\<open>GET /api/appointments\<close>: the pending rows, by date and then time.\<close>

definition get_appointments :: "('i, 'u) appointment list \<Rightarrow> ('i, 'u) appointment list" where
  "get_appointments tbl =
     sort_key (\<lambda>a. (appt_date a, appt_time a)) (filter (\<lambda>a. appt_status a = ''pending'') tbl)"

text \<open>
  \<^verbatim>\<open>POST /api/appointments\<close>: the insert names five columns; the status takes the column
  default. The new key and the timestamp come from the store. The store refuses the row when
  it breaks the foreign key on \<open>psychologist_id\<close> or a value cannot be bound; the statement then
  throws, the request ends in an error and no row is added.
\<close>

definition post_appointments ::
  "'i \<Rightarrow> string \<Rightarrow> form_data \<Rightarrow> 'u \<Rightarrow> bool \<Rightarrow> ('i, 'u) appointment list \<Rightarrow> ('i, 'u) appointment list" where
  "post_appointments new_id now body psychologist_id insert_fails tbl =
     (if insert_fails then tbl
      else tbl @ [\<lparr>appt_id = new_id, appt_student_name = fd_student_name body,
                   appt_grade = fd_grade body, appt_date = fd_date body, appt_time = fd_time body,
                   appt_status = ''pending'', appt_psychologist_id = psychologist_id,
                   appt_created_at = now\<rparr>])"

text \<open>\<^verbatim>\<open>PATCH /api/appointments/:id/status\<close>: \<^verbatim>\<open>UPDATE appointments SET status = ? WHERE id = ?\<close>.\<close>

definition patch_appointment_status ::
  "'i \<Rightarrow> string \<Rightarrow> ('i, 'u) appointment list \<Rightarrow> ('i, 'u) appointment list" where
  "patch_appointment_status i st tbl = map (\<lambda>a. if appt_id a = i then a\<lparr>appt_status := st\<rparr> else a) tbl"

text \<open>The Schedule view: its query, its insert and its update.\<close>

definition fetchAppointments :: "'u \<Rightarrow> ('i, 'u) appointment list \<Rightarrow> ('i, 'u) appointment list" where
  "fetchAppointments uid tbl =
     sort_key (\<lambda>a. (appt_date a, appt_time a))
       (filter (\<lambda>a. appt_psychologist_id a = uid \<and> appt_status a = ''pending'') tbl)"

definition handleAdd ::
  "'u option \<Rightarrow> form_data \<Rightarrow> 'i \<Rightarrow> string \<Rightarrow> bool \<Rightarrow> ('i, 'u) appointment list \<Rightarrow>
   ('i, 'u) appointment list" where
  "handleAdd usr formData new_id now insert_fails tbl =
     (case usr of
        None \<Rightarrow> tbl
      | Some uid \<Rightarrow>
          if insert_fails then tbl
          else tbl @ [\<lparr>appt_id = new_id, appt_student_name = fd_student_name formData,
                       appt_grade = fd_grade formData, appt_date = fd_date formData,
                       appt_time = fd_time formData, appt_status = ''pending'',
                       appt_psychologist_id = uid, appt_created_at = now\<rparr>])"

definition updateStatus ::
  "'i \<Rightarrow> string \<Rightarrow> ('i, 'u) appointment list \<Rightarrow> ('i, 'u) appointment list" where
  "updateStatus i st tbl = map (\<lambda>a. if appt_id a = i then a\<lparr>appt_status := st\<rparr> else a) tbl"

text \<open>
  \<open>NewAttention.handleSubmit\<close>, as far as the appointments table goes: after the attention
  row is inserted without error, the appointment the form was opened from, if any, is marked
  completed. The result of that update is not looked at; when the store does not carry it out
  (\<open>update_fails\<close>), the table stays as it is.
\<close>

definition handleSubmit ::
  "'u option \<Rightarrow> 'i option \<Rightarrow> bool \<Rightarrow> bool \<Rightarrow> ('i, 'u) appointment list \<Rightarrow>
   ('i, 'u) appointment list" where
  "handleSubmit usr apptFromState_id insert_fails update_fails tbl =
     (case usr of
        None \<Rightarrow> tbl
      | Some uid \<Rightarrow>
          if \<not> insert_fails
          then (case apptFromState_id of
                  Some i \<Rightarrow>
                    if update_fails then tbl
                    else map (\<lambda>a. if appt_id a = i then a\<lparr>appt_status := ''completed''\<rparr> else a) tbl
                | None \<Rightarrow> tbl)
          else tbl)"

text \<open>
  Every operation of the repository that writes the appointments table: the three of the
  client (the Cancelar button calls \<open>updateStatus\<close> with \<open>cancelled\<close>) and the two of the
  local server. The client's updates go to the hosted store, which may refuse them; the flag
  of \<open>Cancel\<close> and the second flag of \<open>HandleSubmit\<close> say that it did, and the table is then
  left as it is. The server's PATCH is taken for a request whose status is a text, which the
  statement binds without error.
\<close>

datatype ('i, 'u) action =
    HandleAdd "'u option" form_data 'i string bool
  | Cancel 'i bool
  | HandleSubmit "'u option" "'i option" bool bool
  | PostAppointment 'i string form_data 'u bool
  | PatchStatus 'i string

fun step :: "('i, 'u) action \<Rightarrow> ('i, 'u) appointment list \<Rightarrow> ('i, 'u) appointment list" where
  "step (HandleAdd usr formData new_id now insert_fails) tbl =
     handleAdd usr formData new_id now insert_fails tbl"
| "step (Cancel i update_fails) tbl = (if update_fails then tbl else updateStatus i ''cancelled'' tbl)"
| "step (HandleSubmit usr apptFromState_id insert_fails update_fails) tbl =
     handleSubmit usr apptFromState_id insert_fails update_fails tbl"
| "step (PostAppointment new_id now body psychologist_id insert_fails) tbl =
     post_appointments new_id now body psychologist_id insert_fails tbl"
| "step (PatchStatus i st) tbl = patch_appointment_status i st tbl"

definition run :: "('i, 'u) action list \<Rightarrow> ('i, 'u) appointment list \<Rightarrow> ('i, 'u) appointment list" where
  "run acts tbl = foldl (\<lambda>t a. step a t) tbl acts"

text \<open>
  The write an operation makes to rows that exist already: the id its update names and the
  status it stores there. The cancel button names the appointment of its card, the session
  form the appointment it was opened from (once the session record is stored), the server's
  PATCH the id of its route. An update that the store refuses writes nothing.
\<close>

fun write_of :: "('i, 'u) action \<Rightarrow> ('i \<times> string) option" where
  "write_of (Cancel i False) = Some (i, ''cancelled'')"
| "write_of (HandleSubmit (Some uid) (Some i) False False) = Some (i, ''completed'')"
| "write_of (PatchStatus i st) = Some (i, st)"
| "write_of _ = None"

text \<open>
  The status of the appointment \<open>i\<close> after a sequence of operations, started at \<open>s\<close>: that of
  the last write that named \<open>i\<close>, if there was one.
\<close>

definition status_after :: "'i \<Rightarrow> ('i, 'u) action list \<Rightarrow> string \<Rightarrow> string" where
  "status_after i acts s =
     foldl (\<lambda>cur act. case write_of act of
                          Some (j, st) \<Rightarrow> if j = i then st else cur
                        | None \<Rightarrow> cur) s acts"

fun client :: "('i, 'u) action \<Rightarrow> bool" where
  "client (PostAppointment new_id now body psychologist_id insert_fails) = False"
| "client (PatchStatus i st) = False"
| "client _ = True"


section \<open>Student search (StudentSearchModal)\<close>


text \<open>
  The request the query builder accumulates. \<^verbatim>\<open>.or(filters)\<close> appends one more \<open>or\<close> parameter,
  the text of the filters in parentheses; \<^verbatim>\<open>.limit(n)\<close> sets the row cap.
\<close>

record query =
  or_params :: "jstring list"
  limit_rows :: "nat option"


definition or_filter :: "jstring \<Rightarrow> query \<Rightarrow> query" where
  "or_filter filters q = q\<lparr>or_params := or_params q @ [js ''('' @ filters @ js '')'']\<rparr>"















section \<open>PDF export (generateAttentionPDF)\<close>

record attention =
  student_name :: jstring
  grade :: jstring
  date :: jstring
  time :: "jstring option"
  reason :: jstring
  observations :: jstring
  recommendations :: jstring
  psychologist_name :: "jstring option"

text \<open>The letters outside ASCII that the document's fixed texts use, and the dash U+2014.\<close>

definition Aacute :: jstring where "Aacute = [0xC1]"
definition Oacute :: jstring where "Oacute = [0xD3]"
definition aacute :: jstring where "aacute = [0xE1]"
definition iacute :: jstring where "iacute = [0xED]"
definition oacute :: jstring where "oacute = [0xF3]"
definition dash :: jstring where "dash = [0x2014]"

text \<open>
  What the export takes from outside the repository: the page size of an A4 document in
  millimetres, the text measurement that wraps a string to a width, the date formatting
  (\<open>None\<close> when \<^verbatim>\<open>format(new Date(s), ...)\<close> throws its RangeError on an invalid date), the
  table helper (for a start height and a body, how many pages the table added and the height
  at which it ended) and the clock, read once for each page that is stamped.
\<close>

record env =
  pageW :: real
  pageH :: real
  splitTextToSize :: "jstring \<Rightarrow> real \<Rightarrow> jstring list"
  format :: "jstring \<Rightarrow> jstring option"
  autoTable :: "real \<Rightarrow> (jstring \<times> jstring) list \<Rightarrow> nat \<times> real"
  toLocaleString :: "nat \<Rightarrow> jstring"

datatype error = RangeError

datatype align = AlignLeft | AlignCenter | AlignRight

datatype font_style = Normal | Bold | Italic

text \<open>
  A drawing call as it lands on a page: a text with its position, alignment and the font
  size and style in force, a block of text lines, a filled rectangle, a line, a table.
\<close>

datatype draw =
    Text jstring real real align nat font_style
  | TextLines "jstring list" real real nat font_style
  | Rect real real real real
  | Line real real real real
  | Table real "(jstring \<times> jstring) list"

text \<open>
  The document under construction together with the cursor \<open>y\<close> of the export: the number of
  pages, the current page, the drawing calls so far with the page each went to, the font
  state, and the height at which the last table ended (\<^verbatim>\<open>doc.lastAutoTable.finalY\<close>). The
  colour setters draw nothing and are left out.
\<close>

record pdf =
  npages :: nat
  page :: nat
  drawn :: "(nat \<times> draw) list"
  fontSize :: nat
  fontStyle :: font_style
  lastAutoTable_finalY :: real
  y :: real

definition jsPDF :: pdf where
  "jsPDF = \<lparr>npages = 1, page = 1, drawn = [], fontSize = 16, fontStyle = Normal,
            lastAutoTable_finalY = 0, y = 0\<rparr>"

definition doc_text :: "jstring \<Rightarrow> real \<Rightarrow> real \<Rightarrow> align \<Rightarrow> pdf \<Rightarrow> pdf" where
  "doc_text s x0 y0 al d = d\<lparr>drawn := drawn d @ [(page d, Text s x0 y0 al (fontSize d) (fontStyle d))]\<rparr>"

definition doc_text_lines :: "jstring list \<Rightarrow> real \<Rightarrow> real \<Rightarrow> pdf \<Rightarrow> pdf" where
  "doc_text_lines ls x0 y0 d = d\<lparr>drawn := drawn d @ [(page d, TextLines ls x0 y0 (fontSize d) (fontStyle d))]\<rparr>"

definition doc_rect :: "real \<Rightarrow> real \<Rightarrow> real \<Rightarrow> real \<Rightarrow> pdf \<Rightarrow> pdf" where
  "doc_rect x0 y0 w h d = d\<lparr>drawn := drawn d @ [(page d, Rect x0 y0 w h)]\<rparr>"

definition doc_line :: "real \<Rightarrow> real \<Rightarrow> real \<Rightarrow> real \<Rightarrow> pdf \<Rightarrow> pdf" where
  "doc_line x1 y1 x2 y2 d = d\<lparr>drawn := drawn d @ [(page d, Line x1 y1 x2 y2)]\<rparr>"

definition addPage :: "pdf \<Rightarrow> pdf" where
  "addPage d = d\<lparr>npages := npages d + 1, page := npages d + 1\<rparr>"

definition setPage :: "nat \<Rightarrow> pdf \<Rightarrow> pdf" where
  "setPage p d = d\<lparr>page := p\<rparr>"

definition setFont :: "nat \<Rightarrow> font_style \<Rightarrow> pdf \<Rightarrow> pdf" where
  "setFont sz st d = d\<lparr>fontSize := sz, fontStyle := st\<rparr>"

text \<open>The table helper draws from the current page on and leaves the last page current.\<close>

definition doc_autoTable :: "env \<Rightarrow> real \<Rightarrow> (jstring \<times> jstring) list \<Rightarrow> pdf \<Rightarrow> pdf" where
  "doc_autoTable e startY body d =
     d\<lparr>drawn := drawn d @ [(page d, Table startY body)],
       npages := npages d + fst (autoTable e startY body),
       page := page d + fst (autoTable e startY body),
       lastAutoTable_finalY := snd (autoTable e startY body)\<rparr>"

definition marginL :: real where "marginL = 16"
definition marginR :: real where "marginR = 16"
definition marginB :: real where "marginB = 28"

definition contentW :: "env \<Rightarrow> real" where
  "contentW e = pageW e - marginL - marginR"

definition newPage :: "env \<Rightarrow> pdf \<Rightarrow> pdf" where
  "newPage e d =
     (let d = addPage d;
          d = d\<lparr>y := 14\<rparr>;
          d = setFont 8 Italic d;
          d = doc_text (js ''Registro de Atenci'' @ oacute @ js ''n Psicol'' @ oacute @ js ''gica '' @ dash
                          @ js '' continuaci'' @ oacute @ js ''n'')
                (pageW e - marginR) (y d) AlignRight d
      in d\<lparr>y := y d + 8\<rparr>)"

definition checkPage :: "env \<Rightarrow> real \<Rightarrow> pdf \<Rightarrow> pdf" where
  "checkPage e needed d = (if y d + needed > pageH e - marginB then newPage e d else d)"

definition or_dash :: "jstring \<Rightarrow> jstring" where
  "or_dash s = (if s = [] then dash else s)"

definition opt_or :: "jstring option \<Rightarrow> jstring \<Rightarrow> jstring" where
  "opt_or s dflt = (case s of None \<Rightarrow> dflt | Some v \<Rightarrow> if v = [] then dflt else v)"

text \<open>
  One pass of the loop over the wrapped lines of a section. The font is set once before the
  loop, so a line drawn after \<open>newPage\<close> has run inside the loop is drawn in the font that
  \<open>newPage\<close> left, size 8 italic.
\<close>

definition print_line :: "env \<Rightarrow> pdf \<Rightarrow> jstring \<Rightarrow> pdf" where
  "print_line e d wrapped =
     (let d = checkPage e 7 d;
          d = doc_text wrapped marginL (y d) AlignLeft d
      in d\<lparr>y := y d + 7\<rparr>)"

definition printSection :: "env \<Rightarrow> jstring \<Rightarrow> jstring \<Rightarrow> real \<Rightarrow> pdf \<Rightarrow> pdf" where
  "printSection e title txt gapBefore d =
     (let d = d\<lparr>y := y d + gapBefore\<rparr>;
          d = checkPage e 12 d;
          d = setFont 12 Bold d;
          d = doc_text title marginL (y d) AlignLeft d;
          d = d\<lparr>y := y d + 6\<rparr>;
          d = setFont 11 Normal d;
          lines = splitTextToSize e (or_dash txt) (contentW e)
      in foldl (print_line e) d lines)"

definition title_reason :: jstring where "title_reason = js ''Motivo de Consulta:''"
definition title_observations :: jstring where "title_observations = js ''Observaciones:''"
definition title_recommendations :: jstring where
  "title_recommendations = js ''Recomendaciones / Plan de Acci'' @ oacute @ js ''n:''"

text \<open>The body of the table of general data; \<open>fecha\<close> is the formatted date.\<close>

definition table_body :: "attention \<Rightarrow> jstring \<Rightarrow> (jstring \<times> jstring) list" where
  "table_body attention fecha =
     [(js ''Estudiante'', or_dash (student_name attention)),
      (js ''Grado y Secci'' @ oacute @ js ''n'', or_dash (grade attention)),
      (js ''Fecha de Atenci'' @ oacute @ js ''n'', fecha),
      (js ''Hora'', opt_or (time attention) dash),
      (js ''Psic'' @ oacute @ js ''logo(a)'', opt_or (psychologist_name attention) dash)]"

text \<open>
  The export up to the signature: header, table of general data, the three sections, the
  signature block. The table's body is built first, and building it formats the date.
\<close>

definition layout :: "env \<Rightarrow> attention \<Rightarrow> error + pdf" where
  "layout e attention =
     (let d = jsPDF;
          d = doc_rect 0 0 (pageW e) 40 d;
          d = setFont 20 Bold d;
          d = doc_text (js ''I.E.P. VALORES Y CIENCIAS'') (pageW e / 2) 17 AlignCenter d;
          d = setFont 12 Normal d;
          d = doc_text (Aacute @ js ''rea de Psicolog'' @ iacute @ js ''a'') (pageW e / 2) 28 AlignCenter d;
          d = setFont 14 Bold d;
          d = doc_text (js ''REGISTRO DE ATENCI'' @ Oacute @ js ''N PSICOL'' @ Oacute @ js ''GICA'')
                (pageW e / 2) 52 AlignCenter d;
          d = d\<lparr>y := 60\<rparr>
      in case format e (date attention) of
           None \<Rightarrow> Inl RangeError
         | Some fecha \<Rightarrow>
             (let d = doc_autoTable e (y d) (table_body attention fecha) d;
                  d = d\<lparr>y := lastAutoTable_finalY d + 4\<rparr>;
                  d = printSection e title_reason (reason attention) 6 d;
                  d = printSection e title_observations (observations attention) 8 d;
                  d = printSection e title_recommendations (recommendations attention) 8 d;
                  d = d\<lparr>y := y d + 12\<rparr>;
                  d = checkPage e 30 d;
                  d = doc_line (pageW e / 2 - 40) (y d) (pageW e / 2 + 40) (y d) d;
                  d = d\<lparr>y := y d + 5\<rparr>;
                  d = setFont 10 Normal d;
                  d = doc_text (js ''Firma del Profesional'') (pageW e / 2) (y d) AlignCenter d;
                  d = d\<lparr>y := y d + 5\<rparr>;
                  d = doc_text (opt_or (psychologist_name attention) []) (pageW e / 2) (y d) AlignCenter d
              in Inr d))"

text \<open>The second pass: the footer of page \<open>p\<close>, for \<open>p\<close> from 1 to the number of pages.\<close>

definition footer_text :: "env \<Rightarrow> nat \<Rightarrow> jstring" where
  "footer_text e p =
     js ''I.E.P. Valores y Ciencias - '' @ Aacute @ js ''rea de Psicolog'' @ iacute
       @ js ''a - Generado: '' @ toLocaleString e p"

definition page_indicator :: "nat \<Rightarrow> nat \<Rightarrow> jstring" where
  "page_indicator p totalPages =
     js ''P'' @ aacute @ js ''g. '' @ string_of_nat p @ js '' / '' @ string_of_nat totalPages"

definition stamp :: "env \<Rightarrow> nat \<Rightarrow> pdf \<Rightarrow> nat \<Rightarrow> pdf" where
  "stamp e totalPages d p =
     (let d = setPage p d;
          d = setFont 8 Normal d;
          d = doc_text (footer_text e p) (pageW e / 2) (pageH e - 8) AlignCenter d
      in doc_text (page_indicator p totalPages) (pageW e - marginR) (pageH e - 8) AlignRight d)"

definition stampFooters :: "env \<Rightarrow> pdf \<Rightarrow> pdf" where
  "stampFooters e d = (let totalPages = npages d in foldl (stamp e totalPages) d [1..<Suc totalPages])"

definition file_name :: "attention \<Rightarrow> jstring" where
  "file_name attention =
     js ''Atencion_'' @ replace_ws (student_name attention) @ js ''_'' @ date attention @ js ''.pdf''"

text \<open>The export: the finished document and the name it is saved under, or the error thrown.\<close>

definition generateAttentionPDF :: "env \<Rightarrow> attention \<Rightarrow> error + pdf \<times> jstring" where
  "generateAttentionPDF e attention =
     (case layout e attention of
        Inl err \<Rightarrow> Inl err
      | Inr d \<Rightarrow> Inr (stampFooters e d, file_name attention))"

text \<open>
  The earlier export of the same name in \<^verbatim>\<open>src/lib/pdf.ts\<close>: one page of fixed positions, each
  free text drawn as one block of wrapped lines, no footer, the same file name.
\<close>

definition generateAttentionPDF_lib :: "env \<Rightarrow> attention \<Rightarrow> error + pdf \<times> jstring" where
  "generateAttentionPDF_lib e attention =
     (let d = jsPDF;
          d = doc_rect 0 0 210 40 d;
          d = setFont 22 Bold d;
          d = doc_text (js ''I.E. VALORES Y CIENCIAS'') 105 20 AlignCenter d;
          d = setFont 14 Normal d;
          d = doc_text (Aacute @ js ''rea de Psicolog'' @ iacute @ js ''a'') 105 30 AlignCenter d;
          d = setFont 16 Bold d;
          d = doc_text (js ''REGISTRO DE ATENCI'' @ Oacute @ js ''N PSICOL'' @ Oacute @ js ''GICA'')
                105 55 AlignCenter d
      in case format e (date attention) of
           None \<Rightarrow> Inl RangeError
         | Some fecha \<Rightarrow>
             (let d = doc_autoTable e 65
                        [(js ''Estudiante'', student_name attention),
                         (js ''Grado y Secci'' @ oacute @ js ''n'', grade attention),
                         (js ''Fecha de Atenci'' @ oacute @ js ''n'', fecha),
                         (js ''Hora'', opt_or (time attention) (js ''N/A'')),
                         (js ''Psic'' @ oacute @ js ''logo(a)'',
                          opt_or (psychologist_name attention) (js ''N/A''))]
                        d;
                  finalY = (if lastAutoTable_finalY d = 0 then 100 else lastAutoTable_finalY d);
                  d = setFont 12 Bold d;
                  d = doc_text (js ''Motivo de Consulta:'') 14 (finalY + 15) AlignLeft d;
                  d = setFont 12 Normal d;
                  d = doc_text_lines (splitTextToSize e (reason attention) 180) 14 (finalY + 22) d;
                  reasonHeight = real (length (splitTextToSize e (reason attention) 180)) * 7;
                  d = setFont 12 Bold d;
                  d = doc_text (js ''Observaciones:'') 14 (finalY + 25 + reasonHeight) AlignLeft d;
                  d = setFont 12 Normal d;
                  d = doc_text_lines (splitTextToSize e (observations attention) 180) 14
                        (finalY + 32 + reasonHeight) d;
                  obsHeight = real (length (splitTextToSize e (observations attention) 180)) * 7;
                  d = setFont 12 Bold d;
                  d = doc_text (js ''Recomendaciones / Plan de Acci'' @ oacute @ js ''n:'') 14
                        (finalY + 35 + reasonHeight + obsHeight) AlignLeft d;
                  d = setFont 12 Normal d;
                  d = doc_text_lines (splitTextToSize e (recommendations attention) 180) 14
                        (finalY + 42 + reasonHeight + obsHeight) d;
                  d = doc_line 60 (pageH e - 40) 150 (pageH e - 40) d;
                  d = setFont 10 Normal d;
                  d = doc_text (js ''Firma del Profesional'') 105 (pageH e - 35) AlignCenter d;
                  d = doc_text (opt_or (psychologist_name attention) []) 105 (pageH e - 30) AlignCenter d
              in Inr (d, file_name attention)))"

text \<open>
  The texts drawn flush left, in drawing order (the section titles and the wrapped lines),
  and the blocks of text lines, in drawing order.
\<close>

fun left_texts :: "(nat \<times> draw) list \<Rightarrow> jstring list" where
  "left_texts [] = []"
| "left_texts ((p, Text s x0 y0 AlignLeft sz st) # ds) = s # left_texts ds"
| "left_texts (_ # ds) = left_texts ds"

fun text_blocks :: "(nat \<times> draw) list \<Rightarrow> jstring list list" where
  "text_blocks [] = []"
| "text_blocks ((p, TextLines ls x0 y0 sz st) # ds) = ls # text_blocks ds"
| "text_blocks (_ # ds) = text_blocks ds"

text \<open>
  The room a drawing call at the cursor was checked for: 12 for a section title (size 12,
  flush left), 7 for any other flush-left text (a wrapped line), 30 for the signature rule.
\<close>

fun within_margin :: "env \<Rightarrow> nat \<times> draw \<Rightarrow> bool" where
  "within_margin e (p, Text s x0 y0 AlignLeft sz st) =
     (y0 + (if sz = 12 then 12 else 7) \<le> pageH e - marginB)"
| "within_margin e (p, Line x1 y1 x2 y2) = (y1 + 30 \<le> pageH e - marginB)"
| "within_margin e _ = True"

text \<open>
  Every drawing call went to a page of the document, and the current page is one of them.
\<close>

definition pages_ok :: "pdf \<Rightarrow> bool" where
  "pages_ok d \<longleftrightarrow>
     1 \<le> page d \<and> page d \<le> npages d \<and> (\<forall>(p, x) \<in> set (drawn d). 1 \<le> p \<and> p \<le> npages d)"

text \<open>
  The page-break rule in the words of its description, on the blocks that the export draws
  at its cursor: a section title (after a gap, height 12), a wrapped line (height 7), the
  signature block (after a gap of 12, height 30). A block of height \<open>h\<close> that comes up at
  cursor \<open>(p, y)\<close> with \<open>y + h\<close> beyond the page height less the bottom margin goes to a new
  page \<open>p + 1\<close>: the continuation header is drawn there at height 14 and the block at height
  22; otherwise the block is drawn at \<open>(p, y)\<close>. The cursor then moves down by 6 under a
  title, 7 under a line, 10 under the signature. Fonts are left out (size 0, normal).
\<close>

datatype block = Title real jstring | Wrapped jstring | Signature jstring

definition cursor :: "pdf \<Rightarrow> nat \<times> real" where
  "cursor d = (npages d, y d)"

fun block_gap :: "block \<Rightarrow> real" where
  "block_gap (Title gap t) = gap"
| "block_gap (Wrapped l) = 0"
| "block_gap (Signature n) = 12"

fun block_height :: "block \<Rightarrow> real" where
  "block_height (Title gap t) = 12"
| "block_height (Wrapped l) = 7"
| "block_height (Signature n) = 30"

fun block_advance :: "block \<Rightarrow> real" where
  "block_advance (Title gap t) = 6"
| "block_advance (Wrapped l) = 7"
| "block_advance (Signature n) = 10"

fun block_draws :: "env \<Rightarrow> block \<Rightarrow> real \<Rightarrow> draw list" where
  "block_draws e (Title gap t) y0 = [Text t 16 y0 AlignLeft 0 Normal]"
| "block_draws e (Wrapped l) y0 = [Text l 16 y0 AlignLeft 0 Normal]"
| "block_draws e (Signature n) y0 =
     [Line (pageW e / 2 - 40) y0 (pageW e / 2 + 40) y0,
      Text (js ''Firma del Profesional'') (pageW e / 2) (y0 + 5) AlignCenter 0 Normal,
      Text n (pageW e / 2) (y0 + 10) AlignCenter 0 Normal]"

definition continuation_header :: "env \<Rightarrow> draw" where
  "continuation_header e =
     Text (js ''Registro de Atenci'' @ [0xF3] @ js ''n Psicol'' @ [0xF3] @ js ''gica '' @ [0x2014]
             @ js '' continuaci'' @ [0xF3] @ js ''n'')
       (pageW e - 16) 14 AlignRight 0 Normal"

definition overflows :: "env \<Rightarrow> block \<Rightarrow> nat \<times> real \<Rightarrow> bool" where
  "overflows e b c \<longleftrightarrow> snd c + block_gap b + block_height b > pageH e - 28"

definition settle :: "env \<Rightarrow> block \<Rightarrow> nat \<times> real \<Rightarrow> nat \<times> real" where
  "settle e b c = (if overflows e b c then (fst c + 1, 22) else (fst c, snd c + block_gap b))"

definition move_on :: "env \<Rightarrow> nat \<times> real \<Rightarrow> block \<Rightarrow> nat \<times> real" where
  "move_on e c b = (fst (settle e b c), snd (settle e b c) + block_advance b)"

fun place :: "env \<Rightarrow> block list \<Rightarrow> nat \<times> real \<Rightarrow> (nat \<times> draw) list" where
  "place e [] c = []"
| "place e (b # bs) c =
     (if overflows e b c then [(fst c + 1, continuation_header e)] else [])
     @ map (Pair (fst (settle e b c))) (block_draws e b (snd (settle e b c)))
     @ place e bs (move_on e c b)"

definition section_blocks :: "env \<Rightarrow> real \<Rightarrow> jstring \<Rightarrow> jstring \<Rightarrow> block list" where
  "section_blocks e gap title txt =
     Title gap title # map Wrapped (splitTextToSize e (if txt = [] then dash else txt) (pageW e - 32))"

definition blocks_of :: "env \<Rightarrow> attention \<Rightarrow> block list" where
  "blocks_of e a =
     section_blocks e 6 (js ''Motivo de Consulta:'') (reason a)
     @ section_blocks e 8 (js ''Observaciones:'') (observations a)
     @ section_blocks e 8 (js ''Recomendaciones / Plan de Acci'' @ [0xF3] @ js ''n:'') (recommendations a)
     @ [Signature (case psychologist_name a of None \<Rightarrow> [] | Some n \<Rightarrow> n)]"

fun unfont :: "nat \<times> draw \<Rightarrow> nat \<times> draw" where
  "unfont (p, Text s x0 y0 al sz st) = (p, Text s x0 y0 al 0 Normal)"
| "unfont (p, x) = (p, x)"

text \<open>
  An environment for the examples: A4 in millimetres, wrapping at the line feeds of the text,
  dates of the shape \<open>dddd-dd-dd\<close> formatted as they are and any other string refused, a table
  that stays on its page and ends at the given height.
\<close>

function split_lines :: "jstring \<Rightarrow> jstring list" where
  "split_lines s =
     (let l = takeWhile (\<lambda>c. c \<noteq> 0x0A) s;
          r = dropWhile (\<lambda>c. c \<noteq> 0x0A) s
      in if r = [] then [l] else l # split_lines (tl r))"
  by pat_completeness auto
termination
proof (relation "measure length")
  fix s :: jstring and l r
  assume r: "r = dropWhile (\<lambda>c. c \<noteq> 0x0A) s" and ne: "r \<noteq> []"
  have "length r \<le> length s" using r by (simp add: length_dropWhile_le)
  moreover have "length (tl r) < length r" using ne by (cases r) auto
  ultimately show "(tl r, s) \<in> measure length" by simp
qed simp

definition is_digit :: "nat \<Rightarrow> bool" where
  "is_digit c \<longleftrightarrow> 48 \<le> c \<and> c \<le> 57"

definition iso_date :: "jstring \<Rightarrow> bool" where
  "iso_date s \<longleftrightarrow>
     length s = 10 \<and> list_all is_digit (take 4 s) \<and> s ! 4 = 45 \<and>
     list_all is_digit (take 2 (drop 5 s)) \<and> s ! 7 = 45 \<and> list_all is_digit (drop 8 s)"

definition a4 :: "real \<Rightarrow> env" where
  "a4 tableEnd =
     \<lparr>pageW = 210, pageH = 297,
      splitTextToSize = (\<lambda>s w. split_lines s),
      format = (\<lambda>s. if iso_date s then Some s else None),
      autoTable = (\<lambda>startY body. (0, tableEnd)),
      toLocaleString = (\<lambda>p. js ''20/2/2026, 10:45:00'')\<rparr>"

text \<open>
  Two records for the examples: one with no free text, whose student name has a no-break
  space and an ideographic space between its words, and one whose reason has three lines.
\<close>

definition blank :: attention where
  "blank = \<lparr>student_name = js ''Ana'' @ [0xA0, 0x3000] @ js ''Torres'', grade = js ''6to B'',
            date = js ''2026-02-20'', time = None,
            reason = [], observations = [], recommendations = [], psychologist_name = None\<rparr>"

definition three_lines :: attention where
  "three_lines =
     \<lparr>student_name = js ''Ana  Torres'', grade = js ''6to B'', date = js ''2026-02-20'',
      time = Some (js ''10:45''),
      reason = js ''uno'' @ [0x0A] @ js ''dos'' @ [0x0A] @ js ''tres'', observations = js ''o'',
      recommendations = js ''r'', psychologist_name = Some (js ''Psic. Principal'')\<rparr>"

section \<open>Theorems\<close>

subsection \<open>Strings\<close>

lemma dropWhile_all_space: "list_all is_space pre \<Longrightarrow> dropWhile is_space (pre @ x) = dropWhile is_space x"
  by (induction pre) auto

lemma dropWhile_only_space: "list_all is_space xs \<Longrightarrow> dropWhile is_space xs = []"
  by (induction xs) auto

lemma trim_surrounding:
  assumes "list_all is_space pre" and "list_all is_space post"
  shows "trim (pre @ x @ post) = trim x"
proof -
  have rp: "list_all is_space (rev post)" using assms(2) by (simp add: list_all_iff)
  have a: "dropWhile is_space (pre @ x @ post) = dropWhile is_space (x @ post)"
    using assms(1) by (rule dropWhile_all_space)
  show ?thesis
  proof (cases "list_all is_space x")
    case True
    then have "list_all is_space (x @ post)" using assms(2) by simp
    then have b: "dropWhile is_space (x @ post) = []" by (rule dropWhile_only_space)
    have c: "dropWhile is_space x = []" using True by (rule dropWhile_only_space)
    have "trim (pre @ x @ post) = []" unfolding trim_def a b by simp
    moreover have "trim x = []" unfolding trim_def c by simp
    ultimately show ?thesis by simp
  next
    case False
    then obtain c where c: "c \<in> set x" "\<not> is_space c" by (auto simp: list_all_iff)
    then have "dropWhile is_space (x @ post) = dropWhile is_space x @ post"
      by (simp add: dropWhile_append1)
    then have "rev (dropWhile is_space (pre @ x @ post)) = rev post @ rev (dropWhile is_space x)"
      using a by simp
    then show ?thesis using rp by (simp add: trim_def dropWhile_all_space)
  qed
qed

subsection \<open>The auth gate\<close>

text \<open>
  Claim C5, evaluated on the code: with a session present and a profile lookup that comes back
  with an error, with no row, or rejects, the mounted gate leaves the spinner, shows no 403
  card, sends the window nowhere, and returns its children.
\<close>

theorem checkAuth_profile_failure_renders_children:
  "render (checkAuth up enc portal url True allowedRoles (Session uid) LookupError initial) = Children \<and>
   render (checkAuth up enc portal url True allowedRoles (Session uid) NoProfile initial) = Children \<and>
   render (checkAuth up enc portal url True allowedRoles (Session uid) LookupThrows initial) = Children \<and>
   href (checkAuth up enc portal url True allowedRoles (Session uid) LookupError initial) = None \<and>
   user (checkAuth up enc portal url True allowedRoles (Session uid) LookupError initial) = None"
  by (simp add: checkAuth_def render_def initial_def)

text \<open>
  Claim C6 does not hold of a gate that has shown the 403 card before: the first check finds
  the role \<open>docente\<close> and sets the 403 flag; the effect runs again on the same component, the
  profile now carries the allowed role \<open>admin\<close>, and the gate still shows the 403 card,
  because nothing resets the flag.
\<close>

theorem checkAuth_allowed_role_after_403_counterexample:
  "render
     (checkAuth ascii_upper id (js ''https://portal'') (js ''https://app/'') True
        [js ''psicologa'', js ''admin'', js ''supervisor''] (Session (js ''u1''))
        (Found \<lparr>profile_id = js ''u1'', role = Some (js ''admin''), full_name = js ''A''\<rparr>)
        (checkAuth ascii_upper id (js ''https://portal'') (js ''https://app/'') True
           [js ''psicologa'', js ''admin'', js ''supervisor''] (Session (js ''u1''))
           (Found \<lparr>profile_id = js ''u1'', role = Some (js ''docente''), full_name = js ''A''\<rparr>)
           initial))
   = Forbidden403"
  by (simp add: checkAuth_def render_def initial_def Let_def js_def ascii_upper_def trim_def
      is_space_def)

text \<open>
  Claim C6, amended: with a session present and a profile found, the mounted gate, run on
  whatever state the component is in, returns its children exactly when the 403 flag was not
  set by an earlier check and the profile's role, upper-cased and trimmed, equals some allowed
  role normalised the same way; it returns the 403 card otherwise. In particular, when the
  flag was not set, a role that is an allowed role up to letter case (the two have the same
  upper-case form) with whitespace around it gets the children; the upper-casing leaves
  whitespace around a string as it is, which is the hypothesis on \<open>up\<close>.
\<close>

theorem checkAuth_role_decides:
  "render (checkAuth up enc portal url True allowedRoles (Session uid) (Found p) st) =
     (if \<not> forbidden st \<and>
         (\<exists>a \<in> set allowedRoles.
            trim (up a) = trim (up (case role p of None \<Rightarrow> [] | Some r \<Rightarrow> r)))
      then Children else Forbidden403)
   \<and> (\<not> forbidden st \<longrightarrow> a \<in> set allowedRoles \<longrightarrow> list_all is_space pre \<longrightarrow>
        list_all is_space post \<longrightarrow> up (pre @ r0 @ post) = pre @ up r0 @ post \<longrightarrow>
        up r0 = up a \<longrightarrow> role p = Some (pre @ r0 @ post) \<longrightarrow>
        render (checkAuth up enc portal url True allowedRoles (Session uid) (Found p) st) = Children)"
proof -
  let ?g = "checkAuth up enc portal url True allowedRoles (Session uid) (Found p) st"
  let ?ur = "trim (up (case role p of None \<Rightarrow> [] | Some r \<Rightarrow> r))"
  have main: "render ?g = (if \<not> forbidden st \<and> (\<exists>a \<in> set allowedRoles. trim (up a) = ?ur)
                          then Children else Forbidden403)"
    by (simp add: checkAuth_def render_def Let_def list_ex_iff)
  have part: "render ?g = Children"
    if "\<not> forbidden st" "a \<in> set allowedRoles" "list_all is_space pre" "list_all is_space post"
       "up (pre @ r0 @ post) = pre @ up r0 @ post" "up r0 = up a" "role p = Some (pre @ r0 @ post)"
  proof -
    have "?ur = trim (pre @ up r0 @ post)" using that(5,7) by simp
    also have "\<dots> = trim (up r0)" using that(3,4) by (rule trim_surrounding)
    also have "\<dots> = trim (up a)" using that(6) by simp
    finally have "\<exists>a \<in> set allowedRoles. trim (up a) = ?ur" using that(2) by auto
    then show ?thesis using main that(1) by simp
  qed
  show ?thesis using main part by blast
qed

theorem checkAuth_role_decides_witness:
  "render (checkAuth ascii_upper id (js ''https://portal'') (js ''https://app/'') True
      [js ''psicologa'', js ''admin'', js ''supervisor'']
      (Session (js ''u1''))
      (Found \<lparr>profile_id = js ''u1'', role = Some ([0xA0, 0x20] @ js ''Admin'' @ [0x3000]),
              full_name = js ''A''\<rparr>)
      initial) = Children
   \<and> render (checkAuth ascii_upper id (js ''https://portal'') (js ''https://app/'') True
      [js ''psicologa'', js ''admin'', js ''supervisor'']
      (Session (js ''u2''))
      (Found \<lparr>profile_id = js ''u2'', role = Some (js ''docente''), full_name = js ''D''\<rparr>) initial)
     = Forbidden403"
proof -
  let ?roles = "[js ''psicologa'', js ''admin'', js ''supervisor'']"
  let ?p1 = "\<lparr>profile_id = js ''u1'', role = Some ([0xA0, 0x20] @ js ''Admin'' @ [0x3000]),
              full_name = js ''A''\<rparr>"
  let ?p2 = "\<lparr>profile_id = js ''u2'', role = Some (js ''docente''), full_name = js ''D''\<rparr>"
  have nf: "\<not> forbidden initial" by (simp add: initial_def)
  have sp: "list_all is_space [0xA0, 0x20]" "list_all is_space [0x3000]"
    by (simp_all add: is_space_def)
  have hom: "ascii_upper ([0xA0, 0x20] @ js ''Admin'' @ [0x3000])
      = [0xA0, 0x20] @ ascii_upper (js ''Admin'') @ [0x3000]"
    by (simp add: ascii_upper_def)
  have up: "ascii_upper (js ''Admin'') = ascii_upper (js ''admin'')"
    by (simp add: ascii_upper_def js_def)
  have mem: "js ''admin'' \<in> set ?roles" by simp
  have rl: "role ?p1 = Some ([0xA0, 0x20] @ js ''Admin'' @ [0x3000])" by simp
  have one: "render (checkAuth ascii_upper id (js ''https://portal'') (js ''https://app/'') True ?roles
      (Session (js ''u1'')) (Found ?p1) initial) = Children"
    using checkAuth_role_decides
      [where up = ascii_upper and enc = id and portal = "js ''https://portal''"
         and url = "js ''https://app/''" and allowedRoles = ?roles
         and uid = "js ''u1''" and p = ?p1 and a = "js ''admin''" and pre = "[0xA0, 0x20]"
         and post = "[0x3000]" and ?r0.0 = "js ''Admin''" and st = initial]
      nf sp hom up mem rl by blast
  have no: "\<not> (\<exists>a \<in> set ?roles.
      trim (ascii_upper a) = trim (ascii_upper (case role ?p2 of None \<Rightarrow> [] | Some r \<Rightarrow> r)))"
    by (simp add: trim_def ascii_upper_def js_def is_space_def)
  have two: "render (checkAuth ascii_upper id (js ''https://portal'') (js ''https://app/'') True ?roles
      (Session (js ''u2'')) (Found ?p2) initial) = Forbidden403"
    using checkAuth_role_decides
      [where up = ascii_upper and enc = id and portal = "js ''https://portal''"
         and url = "js ''https://app/''" and allowedRoles = ?roles
         and uid = "js ''u2''" and p = ?p2 and st = initial]
      no by presburger
  show ?thesis using one two by blast
qed

subsection \<open>Login\<close>

text \<open>
  Claim C10: the login response never carries the \<open>password\<close> entry. When some stored row
  equals the request in both username and password, the answer is 200 with \<open>success\<close> true and
  the first such row without its \<open>password\<close> entry; for every other pair it is 401 with
  \<open>success\<close> false and no user data.
\<close>

theorem login_never_returns_password:
  "(case find (\<lambda>r. username r = uname \<and> password r = pw) users of
      Some usr \<Rightarrow>
        login users uname pw =
          \<lparr>status_code = 200, success = True,
           user_data = Some [(''id'', IntV (u_id usr)), (''username'', TextV (username usr)),
                             (''full_name'', TextV (u_full_name usr))],
           message = None\<rparr>
    | None \<Rightarrow>
        login users uname pw =
          \<lparr>status_code = 401, success = False, user_data = None,
           message = Some ''Credenciales incorrectas''\<rparr>)
   \<and> (\<forall>obj. user_data (login users uname pw) = Some obj \<longrightarrow> ''password'' \<notin> fst ` set obj)"
  by (auto simp: login_def row_object_def split: option.splits)

theorem login_never_returns_password_witness:
  "login [\<lparr>u_id = 1, username = ''admin'', password = ''admin123'', u_full_name = ''Psic. Principal''\<rparr>]
     ''admin'' ''admin123''
   = \<lparr>status_code = 200, success = True,
      user_data = Some [(''id'', IntV 1), (''username'', TextV ''admin''),
                        (''full_name'', TextV ''Psic. Principal'')],
      message = None\<rparr>
   \<and> status_code (login [\<lparr>u_id = 1, username = ''admin'', password = ''admin123'',
        u_full_name = ''Psic. Principal''\<rparr>] ''admin'' ''wrong'') = 401"
  using login_never_returns_password
    [where uname = "''admin''" and pw = "''admin123''" and users =
        "[\<lparr>u_id = 1, username = ''admin'', password = ''admin123'', u_full_name = ''Psic. Principal''\<rparr>]"]
    login_never_returns_password
    [where uname = "''admin''" and pw = "''wrong''" and users =
        "[\<lparr>u_id = 1, username = ''admin'', password = ''admin123'', u_full_name = ''Psic. Principal''\<rparr>]"]
  by simp

subsection \<open>Appointments\<close>

lemma step_length: "length tbl \<le> length (step act tbl)"
  by (cases act)
    (auto simp: handleAdd_def updateStatus_def handleSubmit_def post_appointments_def
      patch_appointment_status_def split: option.splits)

lemma status_write_row:
  "k < length tbl \<Longrightarrow>
   map (\<lambda>a. if appt_id a = i then a\<lparr>appt_status := st\<rparr> else a) tbl ! k
     = (tbl ! k)\<lparr>appt_status := (if i = appt_id (tbl ! k) then st else appt_status (tbl ! k))\<rparr>"
  by simp

lemma step_row:
  assumes "k < length tbl"
  shows "step act tbl ! k =
     (tbl ! k)\<lparr>appt_status :=
        (case write_of act of
           Some (j, st) \<Rightarrow> if j = appt_id (tbl ! k) then st else appt_status (tbl ! k)
         | None \<Rightarrow> appt_status (tbl ! k))\<rparr>"
proof (cases act)
  case (HandleAdd usr formData new_id now insert_fails)
  then show ?thesis using assms by (simp add: handleAdd_def nth_append split: option.splits)
next
  case (Cancel i update_fails)
  then show ?thesis
    using assms by (cases update_fails) (simp_all add: updateStatus_def status_write_row del: nth_map)
next
  case (HandleSubmit usr apptFromState_id insert_fails update_fails)
  show ?thesis
  proof (cases usr)
    case None
    with HandleSubmit show ?thesis by (simp add: handleSubmit_def)
  next
    case (Some uid)
    show ?thesis
    proof (cases apptFromState_id)
      case None
      with HandleSubmit Some show ?thesis by (simp add: handleSubmit_def)
    next
      case (Some i)
      show ?thesis
      proof (cases insert_fails)
        case True
        with HandleSubmit \<open>usr = Some uid\<close> Some show ?thesis by (simp add: handleSubmit_def)
      next
        case False
        with HandleSubmit \<open>usr = Some uid\<close> Some show ?thesis
          using assms
          by (cases update_fails) (simp_all add: handleSubmit_def status_write_row del: nth_map)
      qed
    qed
  qed
next
  case (PostAppointment new_id now body psychologist_id insert_fails)
  then show ?thesis using assms by (simp add: post_appointments_def nth_append)
next
  case (PatchStatus i st)
  then show ?thesis
    using assms by (simp add: patch_appointment_status_def status_write_row del: nth_map)
qed

lemma run_snoc: "run (acts @ [act]) tbl = step act (run acts tbl)"
  by (simp add: run_def)

lemma run_length: "length tbl \<le> length (run acts tbl)"
proof (induction acts rule: rev_induct)
  case Nil
  show ?case by (simp add: run_def)
next
  case (snoc act acts)
  have "length (run acts tbl) \<le> length (step act (run acts tbl))" by (rule step_length)
  with snoc show ?case by (simp add: run_snoc)
qed

lemma status_after_snoc:
  "status_after i (acts @ [act]) s =
     (case write_of act of
        Some (j, st) \<Rightarrow> if j = i then st else status_after i acts s
      | None \<Rightarrow> status_after i acts s)"
  by (simp add: status_after_def split: option.splits)

lemma run_row:
  assumes "k < length tbl"
  shows "run acts tbl ! k =
     (tbl ! k)\<lparr>appt_status := status_after (appt_id (tbl ! k)) acts (appt_status (tbl ! k))\<rparr>"
proof (induction acts rule: rev_induct)
  case Nil
  show ?case by (simp add: run_def status_after_def)
next
  case (snoc act acts)
  let ?t = "run acts tbl"
  let ?i = "appt_id (tbl ! k)"
  let ?s = "status_after ?i acts (appt_status (tbl ! k))"
  have k: "k < length ?t" using assms run_length [of tbl acts] by simp
  have old: "?t ! k = (tbl ! k)\<lparr>appt_status := ?s\<rparr>" by (rule snoc)
  have "run (acts @ [act]) tbl ! k = step act ?t ! k" by (simp add: run_snoc)
  also have "\<dots> = (?t ! k)\<lparr>appt_status :=
        (case write_of act of
           Some (j, st) \<Rightarrow> if j = appt_id (?t ! k) then st else appt_status (?t ! k)
         | None \<Rightarrow> appt_status (?t ! k))\<rparr>"
    using k by (rule step_row)
  also have "\<dots> = (tbl ! k)\<lparr>appt_status :=
        (case write_of act of Some (j, st) \<Rightarrow> if j = ?i then st else ?s | None \<Rightarrow> ?s)\<rparr>"
    unfolding old by (simp split: option.splits)
  also have "\<dots> = (tbl ! k)\<lparr>appt_status := status_after ?i (acts @ [act]) (appt_status (tbl ! k))\<rparr>"
    by (simp only: status_after_snoc)
  finally show ?case .
qed

lemma write_of_client:
  "client act \<Longrightarrow> write_of act = Some (j, st) \<Longrightarrow> st = ''completed'' \<or> st = ''cancelled''"
  by (cases act rule: write_of.cases) auto

lemma status_after_client:
  "\<forall>act \<in> set acts. client act \<Longrightarrow> status_after i acts s \<in> {s, ''completed'', ''cancelled''}"
proof (induction acts rule: rev_induct)
  case Nil
  show ?case by (simp add: status_after_def)
next
  case (snoc act acts)
  then have ih: "status_after i acts s \<in> {s, ''completed'', ''cancelled''}" and c: "client act"
    by simp_all
  show ?case
  proof (cases "write_of act")
    case None
    with ih show ?thesis by (simp add: status_after_snoc)
  next
    case (Some w)
    obtain j st where w: "w = (j, st)" by (cases w)
    from c Some w have "st = ''completed'' \<or> st = ''cancelled''" by (simp add: write_of_client)
    with ih Some w show ?thesis by (auto simp: status_after_snoc)
  qed
qed

lemma status_after_unnamed:
  "\<forall>act \<in> set acts. \<forall>st. write_of act \<noteq> Some (i, st) \<Longrightarrow> status_after i acts s = s"
proof (induction acts rule: rev_induct)
  case Nil
  show ?case by (simp add: status_after_def)
next
  case (snoc act acts)
  then have ih: "status_after i acts s = s" and n: "\<forall>st. write_of act \<noteq> Some (i, st)" by simp_all
  show ?case
  proof (cases "write_of act")
    case None
    with ih show ?thesis by (simp add: status_after_snoc)
  next
    case (Some w)
    obtain j st where w: "w = (j, st)" by (cases w)
    with n Some have "j \<noteq> i" by auto
    with ih Some w show ?thesis by (simp add: status_after_snoc)
  qed
qed

text \<open>
  Claim C7 as stated fails: nothing guards the current status. The server's PATCH turns a
  cancelled appointment back to pending, and the client's cancel overwrites a completed one.
\<close>

theorem status_guard_counterexample:
  "appt_status
     (step (PatchStatus (1::nat) ''pending'')
        [\<lparr>appt_id = 1, appt_student_name = ''Kevin Quispe'', appt_grade = ''5to Secundaria'',
          appt_date = ''2026-02-20'', appt_time = ''09:00'', appt_status = ''cancelled'',
          appt_psychologist_id = (1::nat), appt_created_at = ''2026-02-19''\<rparr>] ! 0) = ''pending''
   \<and> appt_status
     (step (Cancel (1::nat) False)
        [\<lparr>appt_id = 1, appt_student_name = ''Kevin Quispe'', appt_grade = ''5to Secundaria'',
          appt_date = ''2026-02-20'', appt_time = ''09:00'', appt_status = ''completed'',
          appt_psychologist_id = (1::nat), appt_created_at = ''2026-02-19''\<rparr>] ! 0) = ''cancelled''"
  by (simp add: patch_appointment_status_def updateStatus_def)

text \<open>
  Claim C7, amended: after any sequence of the operations that write the appointments table,
  a row that existed before is still in its place and is the row it was with one field
  replaced, the status, by the status of the last write that named this row's id and that the
  store carried out: \<open>cancelled\<close> when the cancel button of this appointment was pressed,
  \<open>completed\<close> when a session was logged from this appointment and its record was stored, the
  request's text when the server's PATCH was called with this id. Whatever the status was before, the write replaces it. Under
  client operations alone the status is the old one, \<open>completed\<close> or \<open>cancelled\<close>; and when no
  write of the sequence names the row's id, the row is what it was.
\<close>

theorem appointment_writes_touch_status_only:
  assumes "k < length tbl"
  shows "k < length (run acts tbl)
       \<and> run acts tbl ! k =
           (tbl ! k)\<lparr>appt_status := status_after (appt_id (tbl ! k)) acts (appt_status (tbl ! k))\<rparr>
       \<and> ((\<forall>act \<in> set acts. client act) \<longrightarrow>
            appt_status (run acts tbl ! k) \<in> {appt_status (tbl ! k), ''completed'', ''cancelled''})
       \<and> ((\<forall>act \<in> set acts. \<forall>st. write_of act \<noteq> Some (appt_id (tbl ! k), st)) \<longrightarrow>
            run acts tbl ! k = tbl ! k)"
proof -
  let ?i = "appt_id (tbl ! k)"
  let ?s = "appt_status (tbl ! k)"
  have len: "k < length (run acts tbl)" using assms run_length [of tbl acts] by simp
  have row: "run acts tbl ! k = (tbl ! k)\<lparr>appt_status := status_after ?i acts ?s\<rparr>"
    using assms by (rule run_row)
  have cl: "appt_status (run acts tbl ! k) \<in> {?s, ''completed'', ''cancelled''}"
    if "\<forall>act \<in> set acts. client act"
  proof -
    have "status_after ?i acts ?s \<in> {?s, ''completed'', ''cancelled''}"
      using that by (rule status_after_client)
    then show ?thesis unfolding row by simp
  qed
  have un: "run acts tbl ! k = tbl ! k"
    if "\<forall>act \<in> set acts. \<forall>st. write_of act \<noteq> Some (?i, st)"
  proof -
    have "status_after ?i acts ?s = ?s" using that by (rule status_after_unnamed)
    then show ?thesis unfolding row by simp
  qed
  show ?thesis using len row cl un by blast
qed

theorem appointment_writes_touch_status_only_witness:
  "run [Cancel 8 False, HandleSubmit (Some 1) (Some 7) False False, PostAppointment 9 ''t2''
          \<lparr>fd_student_name = ''Kevin'', fd_grade = ''5to'', fd_date = ''2026-02-21'', fd_time = ''09:00''\<rparr>
          1 False]
     [\<lparr>appt_id = 7::nat, appt_student_name = ''Roberto'', appt_grade = ''4to'',
       appt_date = ''2026-02-20'', appt_time = ''08:00'', appt_status = ''pending'',
       appt_psychologist_id = 1::nat, appt_created_at = ''t''\<rparr>,
      \<lparr>appt_id = 8, appt_student_name = ''Ana'', appt_grade = ''6to'',
       appt_date = ''2026-02-20'', appt_time = ''10:00'', appt_status = ''pending'',
       appt_psychologist_id = 1, appt_created_at = ''t''\<rparr>] ! 0
   = \<lparr>appt_id = 7, appt_student_name = ''Roberto'', appt_grade = ''4to'',
      appt_date = ''2026-02-20'', appt_time = ''08:00'', appt_status = ''completed'',
      appt_psychologist_id = 1, appt_created_at = ''t''\<rparr>
   \<and> run [Cancel 8 False, Cancel 7 True, PatchStatus 9 ''lost'']
     [\<lparr>appt_id = 7::nat, appt_student_name = ''Roberto'', appt_grade = ''4to'',
       appt_date = ''2026-02-20'', appt_time = ''08:00'', appt_status = ''pending'',
       appt_psychologist_id = 1::nat, appt_created_at = ''t''\<rparr>,
      \<lparr>appt_id = 8, appt_student_name = ''Ana'', appt_grade = ''6to'',
       appt_date = ''2026-02-20'', appt_time = ''10:00'', appt_status = ''pending'',
       appt_psychologist_id = 1, appt_created_at = ''t''\<rparr>] ! 0
   = \<lparr>appt_id = 7, appt_student_name = ''Roberto'', appt_grade = ''4to'',
      appt_date = ''2026-02-20'', appt_time = ''08:00'', appt_status = ''pending'',
      appt_psychologist_id = 1, appt_created_at = ''t''\<rparr>"
proof -
  let ?r = "\<lparr>appt_id = 7::nat, appt_student_name = ''Roberto'', appt_grade = ''4to'',
       appt_date = ''2026-02-20'', appt_time = ''08:00'', appt_status = ''pending'',
       appt_psychologist_id = 1::nat, appt_created_at = ''t''\<rparr>"
  let ?q = "\<lparr>appt_id = 8::nat, appt_student_name = ''Ana'', appt_grade = ''6to'',
       appt_date = ''2026-02-20'', appt_time = ''10:00'', appt_status = ''pending'',
       appt_psychologist_id = 1::nat, appt_created_at = ''t''\<rparr>"
  let ?acts = "[Cancel (8::nat) False, HandleSubmit (Some (1::nat)) (Some 7) False False,
     PostAppointment 9 ''t2''
       \<lparr>fd_student_name = ''Kevin'', fd_grade = ''5to'', fd_date = ''2026-02-21'', fd_time = ''09:00''\<rparr>
       1 False]"
  let ?other = "[Cancel (8::nat) False, Cancel 7 True, PatchStatus 9 ''lost'' :: (nat, nat) action]"
  have k: "0 < length [?r, ?q]" by simp
  have st: "status_after (appt_id ([?r, ?q] ! 0)) ?acts (appt_status ([?r, ?q] ! 0)) = ''completed''"
    by (simp add: status_after_def)
  have "run ?acts [?r, ?q] ! 0 =
      ([?r, ?q] ! 0)\<lparr>appt_status :=
         status_after (appt_id ([?r, ?q] ! 0)) ?acts (appt_status ([?r, ?q] ! 0))\<rparr>"
    using appointment_writes_touch_status_only [OF k, where acts = ?acts] by blast
  then have one: "run ?acts [?r, ?q] ! 0 = ?r\<lparr>appt_status := ''completed''\<rparr>"
    unfolding st by simp
  have un: "\<forall>act \<in> set ?other. \<forall>st. write_of act \<noteq> Some (appt_id ([?r, ?q] ! 0), st)"
    by simp
  have "run ?other [?r, ?q] ! 0 = [?r, ?q] ! 0"
    using appointment_writes_touch_status_only [OF k, where acts = ?other] un by blast
  then have two: "run ?other [?r, ?q] ! 0 = ?r" by simp
  show ?thesis using one two by simp
qed

lemma find_map_status:
  "find (\<lambda>a. appt_id a = i) tbl = Some r \<Longrightarrow>
   find (\<lambda>a. appt_id a = i) (map (\<lambda>a. if appt_id a = i then a\<lparr>appt_status := st\<rparr> else a) tbl)
     = Some (r\<lparr>appt_status := st\<rparr>)"
  by (induction tbl) (auto split: if_splits)

lemma map_status_id:
  assumes m: "a \<in> set (map (\<lambda>a. if appt_id a = i then a\<lparr>appt_status := st\<rparr> else a) tbl)"
    and i: "appt_id a = i"
  shows "appt_status a = st"
proof -
  from m have "a \<in> (\<lambda>a. if appt_id a = i then a\<lparr>appt_status := st\<rparr> else a) ` set tbl"
    by (simp only: set_map)
  then obtain b where ab: "a = (if appt_id b = i then b\<lparr>appt_status := st\<rparr> else b)"
    by (rule imageE)
  show ?thesis
  proof (cases "appt_id b = i")
    case True
    with ab have "a = b\<lparr>appt_status := st\<rparr>" by simp
    then show ?thesis by simp
  next
    case False
    with ab have "a = b" by simp
    with False i show ?thesis by simp
  qed
qed

lemma pending_after_status_write:
  assumes "a \<in> set (filter (\<lambda>a. P a \<and> appt_status a = ''pending'')
             (map (\<lambda>a. if appt_id a = i then a\<lparr>appt_status := ''cancelled''\<rparr> else a) tbl))"
  shows "appt_id a \<noteq> i"
proof
  assume "appt_id a = i"
  moreover from assms
  have "a \<in> set (map (\<lambda>a. if appt_id a = i then a\<lparr>appt_status := ''cancelled''\<rparr> else a) tbl)"
    and p: "appt_status a = ''pending''"
    by simp_all
  ultimately have "appt_status a = ''cancelled''" by (simp only: map_status_id)
  with p show False by simp
qed

text \<open>
  Claim C8: once an appointment's status is set to \<open>cancelled\<close>, neither the server's nor the
  Schedule view's pending query returns a row with that id, while the row found under that id
  in the table is the old row with status \<open>cancelled\<close> and nothing else changed.
\<close>

theorem cancelled_leaves_pending_view:
  "(\<forall>a \<in> set (get_appointments (patch_appointment_status i ''cancelled'' tbl)). appt_id a \<noteq> i)
   \<and> (\<forall>a \<in> set (fetchAppointments uid (updateStatus i ''cancelled'' tbl)). appt_id a \<noteq> i)
   \<and> (find (\<lambda>a. appt_id a = i) tbl = Some r \<longrightarrow>
        find (\<lambda>a. appt_id a = i) (patch_appointment_status i ''cancelled'' tbl)
          = Some (r\<lparr>appt_status := ''cancelled''\<rparr>)
        \<and> find (\<lambda>a. appt_id a = i) (updateStatus i ''cancelled'' tbl)
          = Some (r\<lparr>appt_status := ''cancelled''\<rparr>))"
proof -
  have a: "\<forall>a \<in> set (get_appointments (patch_appointment_status i ''cancelled'' tbl)). appt_id a \<noteq> i"
  proof
    fix a assume "a \<in> set (get_appointments (patch_appointment_status i ''cancelled'' tbl))"
    then have "a \<in> set (filter (\<lambda>a. True \<and> appt_status a = ''pending'')
             (map (\<lambda>a. if appt_id a = i then a\<lparr>appt_status := ''cancelled''\<rparr> else a) tbl))"
      by (simp add: get_appointments_def patch_appointment_status_def)
    then show "appt_id a \<noteq> i" by (rule pending_after_status_write)
  qed
  have b: "\<forall>a \<in> set (fetchAppointments uid (updateStatus i ''cancelled'' tbl)). appt_id a \<noteq> i"
  proof
    fix a assume "a \<in> set (fetchAppointments uid (updateStatus i ''cancelled'' tbl))"
    then have "a \<in> set (filter (\<lambda>a. appt_psychologist_id a = uid \<and> appt_status a = ''pending'')
             (map (\<lambda>a. if appt_id a = i then a\<lparr>appt_status := ''cancelled''\<rparr> else a) tbl))"
      by (simp add: fetchAppointments_def updateStatus_def)
    then show "appt_id a \<noteq> i" by (rule pending_after_status_write)
  qed
  have c: "find (\<lambda>a. appt_id a = i) (patch_appointment_status i ''cancelled'' tbl)
          = Some (r\<lparr>appt_status := ''cancelled''\<rparr>)
        \<and> find (\<lambda>a. appt_id a = i) (updateStatus i ''cancelled'' tbl)
          = Some (r\<lparr>appt_status := ''cancelled''\<rparr>)"
    if "find (\<lambda>a. appt_id a = i) tbl = Some r"
    using find_map_status [OF that] by (simp add: patch_appointment_status_def updateStatus_def)
  show ?thesis using a b c by blast
qed


theorem cancelled_leaves_pending_view_witness:
  "find (\<lambda>a. appt_id a = (1::nat))
     (patch_appointment_status 1 ''cancelled''
        [\<lparr>appt_id = 1::nat, appt_student_name = ''Roberto'', appt_grade = ''4to'',
          appt_date = ''2026-02-20'', appt_time = ''08:00'', appt_status = ''pending'',
          appt_psychologist_id = 1::nat, appt_created_at = ''t''\<rparr>,
         \<lparr>appt_id = 2, appt_student_name = ''Kevin'', appt_grade = ''5to'',
          appt_date = ''2026-02-21'', appt_time = ''09:00'', appt_status = ''pending'',
          appt_psychologist_id = 1, appt_created_at = ''t''\<rparr>])
   = Some \<lparr>appt_id = 1, appt_student_name = ''Roberto'', appt_grade = ''4to'',
          appt_date = ''2026-02-20'', appt_time = ''08:00'', appt_status = ''cancelled'',
          appt_psychologist_id = 1, appt_created_at = ''t''\<rparr>
   \<and> get_appointments
     (patch_appointment_status 1 ''cancelled''
        [\<lparr>appt_id = 1::nat, appt_student_name = ''Roberto'', appt_grade = ''4to'',
          appt_date = ''2026-02-20'', appt_time = ''08:00'', appt_status = ''pending'',
          appt_psychologist_id = 1::nat, appt_created_at = ''t''\<rparr>,
         \<lparr>appt_id = 2, appt_student_name = ''Kevin'', appt_grade = ''5to'',
          appt_date = ''2026-02-21'', appt_time = ''09:00'', appt_status = ''pending'',
          appt_psychologist_id = 1, appt_created_at = ''t''\<rparr>])
   = [\<lparr>appt_id = 2, appt_student_name = ''Kevin'', appt_grade = ''5to'',
          appt_date = ''2026-02-21'', appt_time = ''09:00'', appt_status = ''pending'',
          appt_psychologist_id = 1, appt_created_at = ''t''\<rparr>]"
proof -
  let ?r1 = "\<lparr>appt_id = 1::nat, appt_student_name = ''Roberto'', appt_grade = ''4to'',
          appt_date = ''2026-02-20'', appt_time = ''08:00'', appt_status = ''pending'',
          appt_psychologist_id = 1::nat, appt_created_at = ''t''\<rparr>"
  let ?r2 = "\<lparr>appt_id = 2::nat, appt_student_name = ''Kevin'', appt_grade = ''5to'',
          appt_date = ''2026-02-21'', appt_time = ''09:00'', appt_status = ''pending'',
          appt_psychologist_id = 1::nat, appt_created_at = ''t''\<rparr>"
  have f: "find (\<lambda>a. appt_id a = 1) [?r1, ?r2] = Some ?r1" by simp
  have one: "find (\<lambda>a. appt_id a = 1) (patch_appointment_status 1 ''cancelled'' [?r1, ?r2])
      = Some (?r1\<lparr>appt_status := ''cancelled''\<rparr>)"
    using cancelled_leaves_pending_view [where i = 1 and tbl = "[?r1, ?r2]" and r = ?r1] f
    by blast
  have two: "get_appointments (patch_appointment_status 1 ''cancelled'' [?r1, ?r2]) = [?r2]"
    by (simp add: get_appointments_def patch_appointment_status_def)
  show ?thesis using one two by simp
qed

subsection \<open>Student search\<close>






lemma fold_limit_rows:
  "limit_rows (foldl (\<lambda>query word. or_filter (f word) query) q ws) = limit_rows q"
  by (induction ws arbitrary: q) (simp_all add: or_filter_def)









subsection \<open>PDF export\<close>

lemma newPage_fields:
  "npages (newPage e d) = npages d + 1"
  "page (newPage e d) = npages d + 1"
  "y (newPage e d) = 22"
  "fontSize (newPage e d) = 8"
  "fontStyle (newPage e d) = Italic"
  "drawn (newPage e d) =
     drawn d @ [(npages d + 1,
       Text (js ''Registro de Atenci'' @ oacute @ js ''n Psicol'' @ oacute @ js ''gica '' @ dash
               @ js '' continuaci'' @ oacute @ js ''n'')
         (pageW e - marginR) 14 AlignRight 8 Italic)]"
  by (simp_all add: newPage_def addPage_def setFont_def doc_text_def Let_def)

lemma left_texts_append: "left_texts (xs @ ys) = left_texts xs @ left_texts ys"
  by (induction xs rule: left_texts.induct) simp_all

lemma left_texts_checkPage: "left_texts (drawn (checkPage e h d)) = left_texts (drawn d)"
  by (simp add: checkPage_def newPage_fields left_texts_append)

lemma left_texts_print_line:
  "left_texts (drawn (print_line e d l)) = left_texts (drawn d) @ [l]"
  by (simp add: print_line_def Let_def doc_text_def left_texts_append left_texts_checkPage)

lemma left_texts_lines:
  "left_texts (drawn (foldl (print_line e) d ls)) = left_texts (drawn d) @ ls"
  by (induction ls arbitrary: d) (simp_all add: left_texts_print_line)

lemma left_texts_printSection:
  "left_texts (drawn (printSection e title txt gap d)) =
     left_texts (drawn d) @ [title] @ splitTextToSize e (if txt = [] then dash else txt) (contentW e)"
  by (simp add: printSection_def Let_def left_texts_lines doc_text_def setFont_def
      left_texts_append left_texts_checkPage or_dash_def)

lemma stamp_fold:
  "drawn (foldl (stamp e n) d ps) =
     drawn d @ concat (map (\<lambda>p.
       [(p, Text (footer_text e p) (pageW e / 2) (pageH e - 8) AlignCenter 8 Normal),
        (p, Text (page_indicator p n) (pageW e - marginR) (pageH e - 8) AlignRight 8 Normal)]) ps)"
  and stamp_fold_npages: "npages (foldl (stamp e n) d ps) = npages d"
  by (induction ps arbitrary: d)
     (simp_all add: stamp_def Let_def setPage_def setFont_def doc_text_def)

lemma left_texts_footers:
  "left_texts (concat (map (\<lambda>p.
       [(p, Text (f p) x1 y1 AlignCenter 8 Normal), (p, Text (g p) x2 y2 AlignRight 8 Normal)]) ps)) = []"
  by (induction ps) simp_all

lemma layout_left_texts:
  assumes "format e (date a) = Some fecha"
  shows "\<exists>d. layout e a = Inr d \<and>
    left_texts (drawn d) =
      [title_reason] @ splitTextToSize e (if reason a = [] then dash else reason a) (contentW e) @
      [title_observations] @
        splitTextToSize e (if observations a = [] then dash else observations a) (contentW e) @
      [title_recommendations] @
        splitTextToSize e (if recommendations a = [] then dash else recommendations a) (contentW e)"
  using assms
  by (simp add: layout_def Let_def doc_autoTable_def jsPDF_def doc_text_def doc_rect_def doc_line_def
      setFont_def left_texts_append
      left_texts_checkPage left_texts_printSection)

lemma y_checkPage: "22 + h \<le> pageH e - marginB \<Longrightarrow> y (checkPage e h d) + h \<le> pageH e - marginB"
  by (simp add: checkPage_def newPage_fields)

lemma within_checkPage:
  "list_all (within_margin e) (drawn d) \<Longrightarrow> list_all (within_margin e) (drawn (checkPage e h d))"
  by (simp add: checkPage_def newPage_fields)

lemma fontSize_checkPage: "fontSize d \<noteq> 12 \<Longrightarrow> fontSize (checkPage e h d) \<noteq> 12"
  by (simp add: checkPage_def newPage_fields)

lemma within_print_line:
  assumes "29 \<le> pageH e - marginB" and "list_all (within_margin e) (drawn d)" and "fontSize d \<noteq> 12"
  shows "list_all (within_margin e) (drawn (print_line e d l)) \<and> fontSize (print_line e d l) \<noteq> 12"
proof -
  let ?d = "checkPage e 7 d"
  have 1: "list_all (within_margin e) (drawn ?d)" using assms(2) by (rule within_checkPage)
  have 2: "fontSize ?d \<noteq> 12" using assms(3) by (rule fontSize_checkPage)
  have 3: "y ?d + 7 \<le> pageH e - marginB" using assms(1) by (intro y_checkPage) simp
  show ?thesis using 1 2 3 by (simp add: print_line_def Let_def doc_text_def)
qed

lemma within_lines:
  assumes "29 \<le> pageH e - marginB"
  shows "list_all (within_margin e) (drawn d) \<Longrightarrow> fontSize d \<noteq> 12 \<Longrightarrow>
         list_all (within_margin e) (drawn (foldl (print_line e) d ls))"
proof (induction ls arbitrary: d)
  case Nil
  then show ?case by simp
next
  case (Cons l ls)
  from within_print_line [OF assms Cons.prems]
  have "list_all (within_margin e) (drawn (print_line e d l))" "fontSize (print_line e d l) \<noteq> 12"
    by simp_all
  then have "list_all (within_margin e) (drawn (foldl (print_line e) (print_line e d l) ls))"
    by (rule Cons.IH)
  then show ?case by simp
qed

lemma within_printSection:
  assumes "34 \<le> pageH e - marginB" and "list_all (within_margin e) (drawn d)"
  shows "list_all (within_margin e) (drawn (printSection e title txt gap d))"
proof -
  let ?d = "checkPage e 12 (d\<lparr>y := y d + gap\<rparr>)"
  have 1: "list_all (within_margin e) (drawn ?d)" using assms(2) by (intro within_checkPage) simp
  have 3: "y ?d + 12 \<le> pageH e - marginB" using assms(1) by (intro y_checkPage) simp
  let ?t = "(doc_text title marginL (y ?d) AlignLeft (setFont 12 Bold ?d))\<lparr>y := y ?d + 6\<rparr>"
  have "list_all (within_margin e) (drawn (setFont 11 Normal ?t))"
    using 1 3 by (simp add: doc_text_def setFont_def)
  moreover have "fontSize (setFont 11 Normal ?t) \<noteq> 12" by (simp add: setFont_def)
  moreover have "29 \<le> pageH e - marginB" using assms(1) by simp
  ultimately have "list_all (within_margin e)
      (drawn (foldl (print_line e) (setFont 11 Normal ?t)
         (splitTextToSize e (or_dash txt) (contentW e))))"
    by (intro within_lines)
  then show ?thesis by (simp add: printSection_def Let_def doc_text_def setFont_def)
qed

lemma within_layout:
  assumes "52 \<le> pageH e - marginB" and "layout e a = Inr d"
  shows "list_all (within_margin e) (drawn d)"
proof -
  have s: "34 \<le> pageH e - marginB" using assms(1) by simp
  have c: "22 + 30 \<le> pageH e - marginB" using assms(1) by simp
  show ?thesis
    using assms(2)
    by (auto simp: layout_def Let_def doc_autoTable_def jsPDF_def doc_text_def doc_rect_def
        doc_line_def setFont_def within_printSection [OF s] within_checkPage y_checkPage [OF c]
        split: option.splits)
qed

lemma within_stampFooters:
  "list_all (within_margin e) (drawn d) \<Longrightarrow> list_all (within_margin e) (drawn (stampFooters e d))"
  by (auto simp: stampFooters_def Let_def stamp_fold list_all_iff simp del: upt_Suc)

lemma generate_cases:
  "format e (date a) = Some fecha \<Longrightarrow>
     \<exists>d0. layout e a = Inr d0 \<and> generateAttentionPDF e a = Inr (stampFooters e d0, file_name a)"
  "format e (date a) = None \<Longrightarrow> generateAttentionPDF e a = Inl RangeError"
  by (auto simp: generateAttentionPDF_def layout_def Let_def)

lemma generate_Inr:
  "generateAttentionPDF e a = Inr (d, f) \<Longrightarrow>
     \<exists>d0. layout e a = Inr d0 \<and> d = stampFooters e d0 \<and> f = file_name a"
  by (auto simp: generateAttentionPDF_def split: sum.splits)

lemma left_texts_stampFooters: "left_texts (drawn (stampFooters e d)) = left_texts (drawn d)"
  by (simp add: stampFooters_def Let_def stamp_fold left_texts_append left_texts_footers del: upt_Suc)

lemma a4_fields:
  "pageW (a4 t) = 210" "pageH (a4 t) = 297" "splitTextToSize (a4 t) s w = split_lines s"
  "format (a4 t) s = (if iso_date s then Some s else None)" "autoTable (a4 t) sy b = (0, t)"
  "toLocaleString (a4 t) p = js ''20/2/2026, 10:45:00''"
  by (simp_all add: a4_def)

lemma iso_date_example: "iso_date (js ''2026-02-20'')"
  by (simp add: iso_date_def is_digit_def js_def)

lemmas layout_steps =
  layout_def printSection_def print_line_def checkPage_def newPage_def addPage_def doc_autoTable_def
  doc_text_def doc_rect_def doc_line_def setFont_def jsPDF_def marginB_def marginL_def marginR_def
  contentW_def a4_fields iso_date_example Let_def or_dash_def opt_or_def

lemma layout_three_lines:
  "npages (projr (layout (a4 240) three_lines)) = 2"
  "(1, Text (js ''uno'') 16 256 AlignLeft 11 Normal) \<in> set (drawn (projr (layout (a4 240) three_lines)))"
  "(2, Text (js ''Registro de Atenci'' @ [0xF3] @ js ''n Psicol'' @ [0xF3] @ js ''gica '' @ [0x2014]
              @ js '' continuaci'' @ [0xF3] @ js ''n'') 194 14 AlignRight 8 Italic)
     \<in> set (drawn (projr (layout (a4 240) three_lines)))"
  "(2, Text (js ''dos'') 16 22 AlignLeft 8 Italic) \<in> set (drawn (projr (layout (a4 240) three_lines)))"
  by (simp_all add: layout_steps three_lines_def js_def oacute_def dash_def iso_date_def is_digit_def
      cong: let_weak_cong)

lemma drawn_stampFooters:
  "drawn (stampFooters e d) = drawn d @ concat (map (\<lambda>p.
       [(p, Text (footer_text e p) (pageW e / 2) (pageH e - 8) AlignCenter 8 Normal),
        (p, Text (page_indicator p (npages d)) (pageW e - marginR) (pageH e - 8) AlignRight 8 Normal)])
       [1..<Suc (npages d)])"
  and npages_stampFooters: "npages (stampFooters e d) = npages d"
  by (simp_all add: stampFooters_def Let_def stamp_fold stamp_fold_npages del: upt_Suc)





lemma pages_ok_y [simp]: "pages_ok (d\<lparr>y := v\<rparr>) = pages_ok d"
  by (simp add: pages_ok_def)

lemma pages_ok_setFont [simp]: "pages_ok (setFont sz st d) = pages_ok d"
  by (simp add: pages_ok_def setFont_def)





lemma checkPage_fields:
  "drawn (checkPage e h d) =
     drawn d @ (if y d + h > pageH e - 28
                then [(npages d + 1,
                       Text (js ''Registro de Atenci'' @ [0xF3] @ js ''n Psicol'' @ [0xF3] @ js ''gica ''
                               @ [0x2014] @ js '' continuaci'' @ [0xF3] @ js ''n'')
                         (pageW e - 16) 14 AlignRight 8 Italic)]
                else [])"
  "npages (checkPage e h d) = (if y d + h > pageH e - 28 then npages d + 1 else npages d)"
  "page (checkPage e h d) = (if y d + h > pageH e - 28 then npages d + 1 else page d)"
  "y (checkPage e h d) = (if y d + h > pageH e - 28 then 22 else y d)"
  by (simp_all add: checkPage_def newPage_fields marginB_def marginR_def oacute_def dash_def)

lemma place_append: "place e (bs @ cs) c = place e bs c @ place e cs (foldl (move_on e) c bs)"
  by (induction bs arbitrary: c) simp_all

lemma title_place:
  assumes "page d = npages d"
  shows "map unfont (drawn (setFont 11 Normal
           ((doc_text title marginL (y (checkPage e 12 (d\<lparr>y := y d + gap\<rparr>))) AlignLeft
               (setFont 12 Bold (checkPage e 12 (d\<lparr>y := y d + gap\<rparr>))))
             \<lparr>y := y (checkPage e 12 (d\<lparr>y := y d + gap\<rparr>)) + 6\<rparr>)))
         = map unfont (drawn d) @ place e [Title gap title] (cursor d)"
    and "page (setFont 11 Normal
           ((doc_text title marginL (y (checkPage e 12 (d\<lparr>y := y d + gap\<rparr>))) AlignLeft
               (setFont 12 Bold (checkPage e 12 (d\<lparr>y := y d + gap\<rparr>))))
             \<lparr>y := y (checkPage e 12 (d\<lparr>y := y d + gap\<rparr>)) + 6\<rparr>))
         = npages (setFont 11 Normal
           ((doc_text title marginL (y (checkPage e 12 (d\<lparr>y := y d + gap\<rparr>))) AlignLeft
               (setFont 12 Bold (checkPage e 12 (d\<lparr>y := y d + gap\<rparr>))))
             \<lparr>y := y (checkPage e 12 (d\<lparr>y := y d + gap\<rparr>)) + 6\<rparr>))"
    and "cursor (setFont 11 Normal
           ((doc_text title marginL (y (checkPage e 12 (d\<lparr>y := y d + gap\<rparr>))) AlignLeft
               (setFont 12 Bold (checkPage e 12 (d\<lparr>y := y d + gap\<rparr>))))
             \<lparr>y := y (checkPage e 12 (d\<lparr>y := y d + gap\<rparr>)) + 6\<rparr>))
         = move_on e (cursor d) (Title gap title)"
  using assms
  by (simp_all add: setFont_def doc_text_def checkPage_fields cursor_def overflows_def settle_def
      move_on_def continuation_header_def marginL_def)

lemma print_line_place:
  assumes "page d = npages d"
  shows "map unfont (drawn (print_line e d l)) = map unfont (drawn d) @ place e [Wrapped l] (cursor d)"
    and "page (print_line e d l) = npages (print_line e d l)"
    and "cursor (print_line e d l) = move_on e (cursor d) (Wrapped l)"
  using assms
  by (simp_all add: print_line_def Let_def doc_text_def checkPage_fields cursor_def overflows_def
      settle_def move_on_def continuation_header_def marginL_def)

lemma lines_place:
  "page d = npages d \<Longrightarrow>
   map unfont (drawn (foldl (print_line e) d ls))
     = map unfont (drawn d) @ place e (map Wrapped ls) (cursor d)
   \<and> page (foldl (print_line e) d ls) = npages (foldl (print_line e) d ls)
   \<and> cursor (foldl (print_line e) d ls) = foldl (move_on e) (cursor d) (map Wrapped ls)"
proof (induction ls arbitrary: d)
  case Nil
  then show ?case by simp
next
  case (Cons l ls)
  let ?d = "print_line e d l"
  have p: "page ?d = npages ?d" using Cons.prems by (rule print_line_place(2))
  have dr: "map unfont (drawn ?d) = map unfont (drawn d) @ place e [Wrapped l] (cursor d)"
    using Cons.prems by (rule print_line_place(1))
  have cu: "cursor ?d = move_on e (cursor d) (Wrapped l)"
    using Cons.prems by (rule print_line_place(3))
  have pl: "place e (map Wrapped (l # ls)) (cursor d)
      = place e [Wrapped l] (cursor d) @ place e (map Wrapped ls) (move_on e (cursor d) (Wrapped l))"
    using place_append [of e "[Wrapped l]" "map Wrapped ls" "cursor d"] by simp
  from Cons.IH [OF p] show ?case unfolding dr cu pl by simp
qed

lemma printSection_place:
  assumes "page d = npages d"
  shows "map unfont (drawn (printSection e title txt gap d))
           = map unfont (drawn d) @ place e (section_blocks e gap title txt) (cursor d)"
    and "page (printSection e title txt gap d) = npages (printSection e title txt gap d)"
    and "cursor (printSection e title txt gap d)
           = foldl (move_on e) (cursor d) (section_blocks e gap title txt)"
proof -
  let ?t = "setFont 11 Normal
           ((doc_text title marginL (y (checkPage e 12 (d\<lparr>y := y d + gap\<rparr>))) AlignLeft
               (setFont 12 Bold (checkPage e 12 (d\<lparr>y := y d + gap\<rparr>))))
             \<lparr>y := y (checkPage e 12 (d\<lparr>y := y d + gap\<rparr>)) + 6\<rparr>)"
  let ?ls = "splitTextToSize e (if txt = [] then dash else txt) (pageW e - 32)"
  have ps: "printSection e title txt gap d = foldl (print_line e) ?t ?ls"
    by (simp add: printSection_def Let_def or_dash_def contentW_def marginL_def marginR_def
        setFont_def doc_text_def)
  have sb: "section_blocks e gap title txt = [Title gap title] @ map Wrapped ?ls"
    by (simp add: section_blocks_def)
  note t = title_place [OF assms, where title = title and e = e and gap = gap]
  note l = lines_place [OF t(2), where ls = ?ls]
  show "map unfont (drawn (printSection e title txt gap d))
           = map unfont (drawn d) @ place e (section_blocks e gap title txt) (cursor d)"
    unfolding ps sb place_append using l t(1,3) by simp
  show "page (printSection e title txt gap d) = npages (printSection e title txt gap d)"
    unfolding ps using l by simp
  show "cursor (printSection e title txt gap d)
           = foldl (move_on e) (cursor d) (section_blocks e gap title txt)"
    unfolding ps sb using l t(3) by simp
qed

lemma printSection_simps:
  assumes "page d = npages d"
  shows "map unfont (drawn (printSection e title txt gap d))
           = map unfont (drawn d) @ place e (section_blocks e gap title txt) (npages d, y d)"
    and "page (printSection e title txt gap d) = npages (printSection e title txt gap d)"
    and "npages (printSection e title txt gap d)
           = fst (foldl (move_on e) (npages d, y d) (section_blocks e gap title txt))"
    and "y (printSection e title txt gap d)
           = snd (foldl (move_on e) (npages d, y d) (section_blocks e gap title txt))"
proof -
  note p = printSection_place [OF assms, where e = e and title = title and gap = gap]
  show "map unfont (drawn (printSection e title txt gap d))
           = map unfont (drawn d) @ place e (section_blocks e gap title txt) (npages d, y d)"
    using p(1) by (simp add: cursor_def)
  show "page (printSection e title txt gap d) = npages (printSection e title txt gap d)"
    by (rule p(2))
  have "(npages (printSection e title txt gap d), y (printSection e title txt gap d))
      = foldl (move_on e) (npages d, y d) (section_blocks e gap title txt)"
    using p(3) by (simp add: cursor_def)
  then show "npages (printSection e title txt gap d)
           = fst (foldl (move_on e) (npages d, y d) (section_blocks e gap title txt))"
    and "y (printSection e title txt gap d)
           = snd (foldl (move_on e) (npages d, y d) (section_blocks e gap title txt))"
    by (metis fst_conv, metis snd_conv)
qed

lemma opt_or_nil: "opt_or s [] = (case s of None \<Rightarrow> [] | Some n \<Rightarrow> n)"
  by (simp add: opt_or_def split: option.splits)

lemma signature_place:
  assumes "page d = npages d"
  shows "map unfont (drawn
           (let d = d\<lparr>y := y d + 12\<rparr>;
                d = checkPage e 30 d;
                d = doc_line (pageW e / 2 - 40) (y d) (pageW e / 2 + 40) (y d) d;
                d = d\<lparr>y := y d + 5\<rparr>;
                d = setFont 10 Normal d;
                d = doc_text (js ''Firma del Profesional'') (pageW e / 2) (y d) AlignCenter d;
                d = d\<lparr>y := y d + 5\<rparr>
            in doc_text n (pageW e / 2) (y d) AlignCenter d))
         = map unfont (drawn d) @ place e [Signature n] (npages d, y d)"
    and "npages
           (let d = d\<lparr>y := y d + 12\<rparr>;
                d = checkPage e 30 d;
                d = doc_line (pageW e / 2 - 40) (y d) (pageW e / 2 + 40) (y d) d;
                d = d\<lparr>y := y d + 5\<rparr>;
                d = setFont 10 Normal d;
                d = doc_text (js ''Firma del Profesional'') (pageW e / 2) (y d) AlignCenter d;
                d = d\<lparr>y := y d + 5\<rparr>
            in doc_text n (pageW e / 2) (y d) AlignCenter d)
         = fst (move_on e (npages d, y d) (Signature n))"
  using assms
  by (simp_all add: Let_def doc_line_def doc_text_def setFont_def checkPage_fields overflows_def
      settle_def move_on_def continuation_header_def)

lemma layout_place:
  assumes "format e (date a) = Some fecha"
  shows "\<exists>d0. layout e a = Inr d0 \<and>
     map unfont (drawn d0) =
       map unfont
         [(1, Rect 0 0 (pageW e) 40),
          (1, Text (js ''I.E.P. VALORES Y CIENCIAS'') (pageW e / 2) 17 AlignCenter 20 Bold),
          (1, Text ([0xC1] @ js ''rea de Psicolog'' @ [0xED] @ js ''a'') (pageW e / 2) 28 AlignCenter
                12 Normal),
          (1, Text (js ''REGISTRO DE ATENCI'' @ [0xD3] @ js ''N PSICOL'' @ [0xD3] @ js ''GICA'')
                (pageW e / 2) 52 AlignCenter 14 Bold),
          (1, Table 60 (table_body a fecha))]
       @ place e (blocks_of e a)
           (1 + fst (autoTable e 60 (table_body a fecha)),
            snd (autoTable e 60 (table_body a fecha)) + 4) \<and>
     npages d0 =
       fst (foldl (move_on e)
              (1 + fst (autoTable e 60 (table_body a fecha)),
               snd (autoTable e 60 (table_body a fecha)) + 4)
              (blocks_of e a))"
proof -
  let ?start = "(1 + fst (autoTable e 60 (table_body a fecha)),
                 snd (autoTable e 60 (table_body a fecha)) + 4)"
  let ?n = "case psychologist_name a of None \<Rightarrow> [] | Some n \<Rightarrow> n"
  let ?b1 = "section_blocks e 6 (js ''Motivo de Consulta:'') (reason a)"
  let ?b2 = "section_blocks e 8 (js ''Observaciones:'') (observations a)"
  let ?b3 = "section_blocks e 8 (js ''Recomendaciones / Plan de Acci'' @ [0xF3] @ js ''n:'')
               (recommendations a)"
  define d1 where "d1 =
     (let d = jsPDF;
          d = doc_rect 0 0 (pageW e) 40 d;
          d = setFont 20 Bold d;
          d = doc_text (js ''I.E.P. VALORES Y CIENCIAS'') (pageW e / 2) 17 AlignCenter d;
          d = setFont 12 Normal d;
          d = doc_text (Aacute @ js ''rea de Psicolog'' @ iacute @ js ''a'') (pageW e / 2) 28 AlignCenter d;
          d = setFont 14 Bold d;
          d = doc_text (js ''REGISTRO DE ATENCI'' @ Oacute @ js ''N PSICOL'' @ Oacute @ js ''GICA'')
                (pageW e / 2) 52 AlignCenter d;
          d = d\<lparr>y := 60\<rparr>;
          d = doc_autoTable e (y d) (table_body a fecha) d
      in d\<lparr>y := lastAutoTable_finalY d + 4\<rparr>)"
  define s1 where "s1 = printSection e (js ''Motivo de Consulta:'') (reason a) 6 d1"
  define s2 where "s2 = printSection e (js ''Observaciones:'') (observations a) 8 s1"
  define s3 where "s3 = printSection e (js ''Recomendaciones / Plan de Acci'' @ [0xF3] @ js ''n:'')
                          (recommendations a) 8 s2"
  define d0 where "d0 =
     (let d = s3\<lparr>y := y s3 + 12\<rparr>;
          d = checkPage e 30 d;
          d = doc_line (pageW e / 2 - 40) (y d) (pageW e / 2 + 40) (y d) d;
          d = d\<lparr>y := y d + 5\<rparr>;
          d = setFont 10 Normal d;
          d = doc_text (js ''Firma del Profesional'') (pageW e / 2) (y d) AlignCenter d;
          d = d\<lparr>y := y d + 5\<rparr>
      in doc_text ?n (pageW e / 2) (y d) AlignCenter d)"
  have L: "layout e a = Inr d0"
    by (simp add: layout_def assms d0_def s3_def s2_def s1_def d1_def Let_def opt_or_nil
        title_reason_def title_observations_def title_recommendations_def oacute_def)
  have hd: "drawn d1 =
         [(1, Rect 0 0 (pageW e) 40),
          (1, Text (js ''I.E.P. VALORES Y CIENCIAS'') (pageW e / 2) 17 AlignCenter 20 Bold),
          (1, Text ([0xC1] @ js ''rea de Psicolog'' @ [0xED] @ js ''a'') (pageW e / 2) 28 AlignCenter
                12 Normal),
          (1, Text (js ''REGISTRO DE ATENCI'' @ [0xD3] @ js ''N PSICOL'' @ [0xD3] @ js ''GICA'')
                (pageW e / 2) 52 AlignCenter 14 Bold),
          (1, Table 60 (table_body a fecha))]"
    and p1: "page d1 = npages d1" and c1: "(npages d1, y d1) = ?start"
    by (simp_all add: d1_def Let_def jsPDF_def doc_rect_def doc_text_def setFont_def
        doc_autoTable_def Aacute_def iacute_def Oacute_def)
  note a1 = printSection_simps [OF p1, where e = e and title = "js ''Motivo de Consulta:''"
      and gap = 6, of "reason a", folded s1_def]
  note a2 = printSection_simps [OF a1(2), where e = e and title = "js ''Observaciones:''"
      and gap = 8, of "observations a", folded s2_def]
  note a3 = printSection_simps [OF a2(2), where e = e
      and title = "js ''Recomendaciones / Plan de Acci'' @ [0xF3] @ js ''n:''"
      and gap = 8, of "recommendations a", folded s3_def]
  have k1: "(npages s1, y s1) = foldl (move_on e) ?start ?b1"
    using a1(3,4) c1 by simp
  have k2: "(npages s2, y s2) = foldl (move_on e) ?start (?b1 @ ?b2)"
    using a2(3,4) k1 by simp
  have k3: "(npages s3, y s3) = foldl (move_on e) ?start (?b1 @ ?b2 @ ?b3)"
    using a3(3,4) k2 by simp
  have m3: "map unfont (drawn s3) = map unfont (drawn d1) @ place e (?b1 @ ?b2 @ ?b3) ?start"
    unfolding a3(1) a2(1) a1(1) k2 k1 c1 by (simp add: place_append)
  note sg = signature_place [OF a3(2), where e = e and n = ?n, folded d0_def]
  have m0: "map unfont (drawn d0)
      = map unfont (drawn d1) @ place e ((?b1 @ ?b2 @ ?b3) @ [Signature ?n]) ?start"
    unfolding sg(1) m3 k3 place_append [where bs = "?b1 @ ?b2 @ ?b3"] by simp
  have n0: "npages d0 = fst (foldl (move_on e) ?start ((?b1 @ ?b2 @ ?b3) @ [Signature ?n]))"
    unfolding sg(2) k3 by simp
  have b: "blocks_of e a = (?b1 @ ?b2 @ ?b3) @ [Signature ?n]"
    by (simp add: blocks_of_def)
  show ?thesis using L m0 n0 unfolding b hd by blast
qed

lemma text_blocks_append: "text_blocks (xs @ ys) = text_blocks xs @ text_blocks ys"
  by (induction xs rule: text_blocks.induct) simp_all

lemma lib_cases:
  "format e (date a) = Some fecha \<Longrightarrow>
     \<exists>d. generateAttentionPDF_lib e a = Inr (d, file_name a) \<and>
         left_texts (drawn d) =
           [js ''Motivo de Consulta:'', js ''Observaciones:'',
            js ''Recomendaciones / Plan de Acci'' @ [0xF3] @ js ''n:''] \<and>
         text_blocks (drawn d) =
           [splitTextToSize e (reason a) 180, splitTextToSize e (observations a) 180,
            splitTextToSize e (recommendations a) 180]"
  "format e (date a) = None \<Longrightarrow> generateAttentionPDF_lib e a = Inl RangeError"
  "generateAttentionPDF_lib e a = Inr (d, f) \<Longrightarrow> f = file_name a"
  by (auto simp: generateAttentionPDF_lib_def Let_def jsPDF_def doc_rect_def doc_text_def
      doc_text_lines_def doc_line_def doc_autoTable_def setFont_def oacute_def
      split: option.splits)

text \<open>
  Claim C2 as stated fails, in two ways. The date is formatted before anything of the free
  text is drawn, and a record whose free-text fields are all empty but whose date is no valid
  date (here the empty string) makes the export throw. And the earlier export of
  \<^verbatim>\<open>src/lib/pdf.ts\<close> has no placeholder: for a record with a valid date and no free text it
  returns having drawn, under the three titles, three blocks that each hold the one empty
  line; no dash is among its texts.
\<close>

theorem generate_invalid_date_counterexample:
  "generateAttentionPDF (a4 100)
     \<lparr>student_name = js ''Ana Torres'', grade = js ''6to B'', date = [], time = None,
      reason = [], observations = [], recommendations = [], psychologist_name = None\<rparr>
   = Inl RangeError
   \<and> \<not> isl (generateAttentionPDF_lib (a4 100) blank)
   \<and> text_blocks (drawn (fst (projr (generateAttentionPDF_lib (a4 100) blank)))) = [[[]], [[]], [[]]]
   \<and> left_texts (drawn (fst (projr (generateAttentionPDF_lib (a4 100) blank)))) =
       [js ''Motivo de Consulta:'', js ''Observaciones:'',
        js ''Recomendaciones / Plan de Acci'' @ [0xF3] @ js ''n:'']"
proof -
  have 1: "generateAttentionPDF (a4 100)
     \<lparr>student_name = js ''Ana Torres'', grade = js ''6to B'', date = [], time = None,
      reason = [], observations = [], recommendations = [], psychologist_name = None\<rparr>
   = Inl RangeError"
    by (simp add: generateAttentionPDF_def layout_def a4_fields iso_date_def)
  have f: "format (a4 100) (date blank) = Some (js ''2026-02-20'')"
    by (simp add: blank_def a4_fields iso_date_example)
  from lib_cases(1) [OF f] obtain d where
    g: "generateAttentionPDF_lib (a4 100) blank = Inr (d, file_name blank)" and
    l: "left_texts (drawn d) =
           [js ''Motivo de Consulta:'', js ''Observaciones:'',
            js ''Recomendaciones / Plan de Acci'' @ [0xF3] @ js ''n:'']" and
    t: "text_blocks (drawn d) =
           [splitTextToSize (a4 100) (reason blank) 180, splitTextToSize (a4 100) (observations blank) 180,
            splitTextToSize (a4 100) (recommendations blank) 180]"
    by blast
  have s: "splitTextToSize (a4 100) [] 180 = [[]]" by (simp add: a4_fields)
  have t': "text_blocks (drawn d) = [[[]], [[]], [[]]]"
    using t by (simp add: blank_def s)
  show ?thesis using 1 g l t' by simp
qed

text \<open>
  Claim C2, amended: for a record whose reason, observations and recommendations are empty
  strings and whose date formats, both exports return. The texts the paginating export draws
  flush left are the three section titles, each followed by the wrapped lines of the
  placeholder dash, which is the one line holding the dash when the dash fits the content
  width. The earlier export draws the three titles flush left and, under each, the block of
  the wrapped lines of the empty string, with no placeholder. When the date does not format,
  either export throws the RangeError.
\<close>

theorem empty_sections_render_dash:
  "(reason a = [] \<longrightarrow> observations a = [] \<longrightarrow> recommendations a = [] \<longrightarrow>
    format e (date a) = Some fecha \<longrightarrow>
      (\<exists>d. generateAttentionPDF e a = Inr (d, file_name a) \<and>
           left_texts (drawn d) =
             [title_reason] @ splitTextToSize e dash (contentW e) @
             [title_observations] @ splitTextToSize e dash (contentW e) @
             [title_recommendations] @ splitTextToSize e dash (contentW e) \<and>
           (splitTextToSize e dash (contentW e) = [dash] \<longrightarrow>
            left_texts (drawn d) =
              [title_reason, dash, title_observations, dash, title_recommendations, dash]))
      \<and> (\<exists>d. generateAttentionPDF_lib e a = Inr (d, file_name a) \<and>
           left_texts (drawn d) =
             [js ''Motivo de Consulta:'', js ''Observaciones:'',
              js ''Recomendaciones / Plan de Acci'' @ [0xF3] @ js ''n:''] \<and>
           text_blocks (drawn d) =
             [splitTextToSize e [] 180, splitTextToSize e [] 180, splitTextToSize e [] 180]))
   \<and> (format e (date a) = None \<longrightarrow>
        generateAttentionPDF e a = Inl RangeError \<and> generateAttentionPDF_lib e a = Inl RangeError)"
proof -
  have ok: "\<exists>d. generateAttentionPDF e a = Inr (d, file_name a) \<and>
           left_texts (drawn d) =
             [title_reason] @ splitTextToSize e dash (contentW e) @
             [title_observations] @ splitTextToSize e dash (contentW e) @
             [title_recommendations] @ splitTextToSize e dash (contentW e) \<and>
           (splitTextToSize e dash (contentW e) = [dash] \<longrightarrow>
            left_texts (drawn d) =
              [title_reason, dash, title_observations, dash, title_recommendations, dash])"
    if r: "reason a = []" "observations a = []" "recommendations a = []"
      and f: "format e (date a) = Some fecha"
  proof -
    from generate_cases(1) [OF f] obtain d0 where
      l: "layout e a = Inr d0" and g: "generateAttentionPDF e a = Inr (stampFooters e d0, file_name a)"
      by blast
    from layout_left_texts [OF f] l r
    have "left_texts (drawn d0) =
             [title_reason] @ splitTextToSize e dash (contentW e) @
             [title_observations] @ splitTextToSize e dash (contentW e) @
             [title_recommendations] @ splitTextToSize e dash (contentW e)"
      by simp
    then have "left_texts (drawn (stampFooters e d0)) =
             [title_reason] @ splitTextToSize e dash (contentW e) @
             [title_observations] @ splitTextToSize e dash (contentW e) @
             [title_recommendations] @ splitTextToSize e dash (contentW e)"
      by (simp only: left_texts_stampFooters)
    with g show ?thesis by auto
  qed
  have lib: "\<exists>d. generateAttentionPDF_lib e a = Inr (d, file_name a) \<and>
           left_texts (drawn d) =
             [js ''Motivo de Consulta:'', js ''Observaciones:'',
              js ''Recomendaciones / Plan de Acci'' @ [0xF3] @ js ''n:''] \<and>
           text_blocks (drawn d) =
             [splitTextToSize e [] 180, splitTextToSize e [] 180, splitTextToSize e [] 180]"
    if r: "reason a = []" "observations a = []" "recommendations a = []"
      and f: "format e (date a) = Some fecha"
    using lib_cases(1) [OF f] r by simp
  have bad: "generateAttentionPDF e a = Inl RangeError \<and> generateAttentionPDF_lib e a = Inl RangeError"
    if "format e (date a) = None"
    using that generate_cases(2) lib_cases(2) by blast
  show ?thesis using ok lib bad by blast
qed

theorem empty_sections_render_dash_witness:
  "left_texts (drawn (fst (projr (generateAttentionPDF (a4 100) blank)))) =
     [js ''Motivo de Consulta:'', [0x2014], js ''Observaciones:'', [0x2014],
      js ''Recomendaciones / Plan de Acci'' @ [0xF3] @ js ''n:'', [0x2014]]
   \<and> text_blocks (drawn (fst (projr (generateAttentionPDF_lib (a4 100) blank)))) = [[[]], [[]], [[]]]"
proof -
  have r: "reason blank = []" "observations blank = []" "recommendations blank = []"
    by (simp_all add: blank_def)
  have f: "format (a4 100) (date blank) = Some (js ''2026-02-20'')"
    by (simp add: blank_def a4_fields iso_date_example)
  have sp: "splitTextToSize (a4 100) dash (contentW (a4 100)) = [dash]"
    by (simp add: a4_fields dash_def)
  have s: "splitTextToSize (a4 100) [] 180 = [[]]" by (simp add: a4_fields)
  from empty_sections_render_dash [where e = "a4 100" and a = blank and fecha = "js ''2026-02-20''"] r f
  obtain d d' where
    "generateAttentionPDF (a4 100) blank = Inr (d, file_name blank)"
    "splitTextToSize (a4 100) dash (contentW (a4 100)) = [dash] \<longrightarrow>
       left_texts (drawn d) =
         [title_reason, dash, title_observations, dash, title_recommendations, dash]"
    "generateAttentionPDF_lib (a4 100) blank = Inr (d', file_name blank)"
    "text_blocks (drawn d') =
       [splitTextToSize (a4 100) [] 180, splitTextToSize (a4 100) [] 180,
        splitTextToSize (a4 100) [] 180]"
    by blast
  with sp s show ?thesis
    by (simp add: title_reason_def title_observations_def title_recommendations_def dash_def
        oacute_def)
qed



lemma place_three_lines:
  "place (a4 240) (blocks_of (a4 240) three_lines) (1, 244) =
     [(1, Text (js ''Motivo de Consulta:'') 16 250 AlignLeft 0 Normal),
      (1, Text (js ''uno'') 16 256 AlignLeft 0 Normal),
      (2, Text (js ''Registro de Atenci'' @ [0xF3] @ js ''n Psicol'' @ [0xF3] @ js ''gica '' @ [0x2014]
                  @ js '' continuaci'' @ [0xF3] @ js ''n'') 194 14 AlignRight 0 Normal),
      (2, Text (js ''dos'') 16 22 AlignLeft 0 Normal),
      (2, Text (js ''tres'') 16 29 AlignLeft 0 Normal),
      (2, Text (js ''Observaciones:'') 16 44 AlignLeft 0 Normal),
      (2, Text (js ''o'') 16 50 AlignLeft 0 Normal),
      (2, Text (js ''Recomendaciones / Plan de Acci'' @ [0xF3] @ js ''n:'') 16 65 AlignLeft 0 Normal),
      (2, Text (js ''r'') 16 71 AlignLeft 0 Normal),
      (2, Line 65 90 145 90),
      (2, Text (js ''Firma del Profesional'') 105 95 AlignCenter 0 Normal),
      (2, Text (js ''Psic. Principal'') 105 100 AlignCenter 0 Normal)]"
  by (simp add: blocks_of_def section_blocks_def three_lines_def a4_fields overflows_def settle_def
      move_on_def continuation_header_def js_def cong: let_weak_cong)

text \<open>
  Claim C4. When a block of height \<open>h\<close> does not fit above the bottom margin, \<open>checkPage\<close>
  adds a page, draws the continuation header on it at height 14 and leaves the cursor at 22;
  when it fits, nothing changes. On a page tall enough for the largest block under that
  header, the cursor after the check leaves room for the block, and in every export each
  section title, each wrapped line and the signature rule is drawn where its block stays above
  the bottom margin. And the export as a whole follows the rule: what it draws is, fonts aside,
  the letterhead and the table on page 1, then the section titles, the wrapped lines one by
  one and the signature block placed by the rule from the cursor under the table, a
  continuation header before every block that went to a new page, then the footers; the
  document has the pages the rule gives. The lines are checked one by one, so a section can
  continue on the next page: the example has the first line of a section on page 1, then the
  continuation header and the second line on page 2.
\<close>

theorem page_break_before_overflow:
  "(y d0 + h > pageH e - marginB \<longrightarrow>
      npages (checkPage e h d0) = npages d0 + 1 \<and> page (checkPage e h d0) = npages d0 + 1 \<and>
      drawn (checkPage e h d0) =
        drawn d0 @ [(npages d0 + 1,
          Text (js ''Registro de Atenci'' @ [0xF3] @ js ''n Psicol'' @ [0xF3] @ js ''gica '' @ [0x2014]
                  @ js '' continuaci'' @ [0xF3] @ js ''n'')
            (pageW e - marginR) 14 AlignRight 8 Italic)] \<and>
      y (checkPage e h d0) = 22)
   \<and> (y d0 + h \<le> pageH e - marginB \<longrightarrow> checkPage e h d0 = d0)
   \<and> (22 + 30 \<le> pageH e - marginB \<longrightarrow> h \<le> 30 \<longrightarrow> y (checkPage e h d0) + h \<le> pageH e - marginB)
   \<and> (22 + 30 \<le> pageH e - marginB \<longrightarrow> generateAttentionPDF e a = Inr (d, f) \<longrightarrow>
        list_all (within_margin e) (drawn d))
   \<and> (generateAttentionPDF e a = Inr (d, f) \<longrightarrow> format e (date a) = Some fecha \<longrightarrow>
        map unfont (drawn d) =
          map unfont
            [(1, Rect 0 0 (pageW e) 40),
             (1, Text (js ''I.E.P. VALORES Y CIENCIAS'') (pageW e / 2) 17 AlignCenter 20 Bold),
             (1, Text ([0xC1] @ js ''rea de Psicolog'' @ [0xED] @ js ''a'') (pageW e / 2) 28
                   AlignCenter 12 Normal),
             (1, Text (js ''REGISTRO DE ATENCI'' @ [0xD3] @ js ''N PSICOL'' @ [0xD3] @ js ''GICA'')
                   (pageW e / 2) 52 AlignCenter 14 Bold),
             (1, Table 60 (table_body a fecha))]
          @ place e (blocks_of e a)
              (1 + fst (autoTable e 60 (table_body a fecha)),
               snd (autoTable e 60 (table_body a fecha)) + 4)
          @ map unfont (concat (map (\<lambda>p.
              [(p, Text (footer_text e p) (pageW e / 2) (pageH e - 8) AlignCenter 8 Normal),
               (p, Text (page_indicator p (npages d)) (pageW e - marginR) (pageH e - 8)
                     AlignRight 8 Normal)]) [1..<Suc (npages d)]))
        \<and> npages d =
            fst (foldl (move_on e)
                   (1 + fst (autoTable e 60 (table_body a fecha)),
                    snd (autoTable e 60 (table_body a fecha)) + 4)
                   (blocks_of e a)))"
proof -
  have 1: "y d0 + h > pageH e - marginB \<longrightarrow>
      npages (checkPage e h d0) = npages d0 + 1 \<and> page (checkPage e h d0) = npages d0 + 1 \<and>
      drawn (checkPage e h d0) =
        drawn d0 @ [(npages d0 + 1,
          Text (js ''Registro de Atenci'' @ [0xF3] @ js ''n Psicol'' @ [0xF3] @ js ''gica '' @ [0x2014]
                  @ js '' continuaci'' @ [0xF3] @ js ''n'')
            (pageW e - marginR) 14 AlignRight 8 Italic)] \<and>
      y (checkPage e h d0) = 22"
    by (simp add: checkPage_def newPage_fields oacute_def dash_def)
  have 2: "y d0 + h \<le> pageH e - marginB \<longrightarrow> checkPage e h d0 = d0"
    by (simp add: checkPage_def)
  have 3: "h \<le> 30 \<longrightarrow> y (checkPage e h d0) + h \<le> pageH e - marginB"
    if "22 + 30 \<le> pageH e - marginB"
    using that by (auto intro: y_checkPage)
  have 4: "list_all (within_margin e) (drawn d)"
    if tall: "22 + 30 \<le> pageH e - marginB" and g: "generateAttentionPDF e a = Inr (d, f)"
  proof -
    from generate_Inr [OF g] obtain dl where l: "layout e a = Inr dl" and d: "d = stampFooters e dl"
      by blast
    have "52 \<le> pageH e - marginB" using tall by simp
    then have "list_all (within_margin e) (drawn dl)" using l by (rule within_layout)
    then show ?thesis unfolding d by (rule within_stampFooters)
  qed
  have 5: "map unfont (drawn d) =
          map unfont
            [(1, Rect 0 0 (pageW e) 40),
             (1, Text (js ''I.E.P. VALORES Y CIENCIAS'') (pageW e / 2) 17 AlignCenter 20 Bold),
             (1, Text ([0xC1] @ js ''rea de Psicolog'' @ [0xED] @ js ''a'') (pageW e / 2) 28
                   AlignCenter 12 Normal),
             (1, Text (js ''REGISTRO DE ATENCI'' @ [0xD3] @ js ''N PSICOL'' @ [0xD3] @ js ''GICA'')
                   (pageW e / 2) 52 AlignCenter 14 Bold),
             (1, Table 60 (table_body a fecha))]
          @ place e (blocks_of e a)
              (1 + fst (autoTable e 60 (table_body a fecha)),
               snd (autoTable e 60 (table_body a fecha)) + 4)
          @ map unfont (concat (map (\<lambda>p.
              [(p, Text (footer_text e p) (pageW e / 2) (pageH e - 8) AlignCenter 8 Normal),
               (p, Text (page_indicator p (npages d)) (pageW e - marginR) (pageH e - 8)
                     AlignRight 8 Normal)]) [1..<Suc (npages d)]))
        \<and> npages d =
            fst (foldl (move_on e)
                   (1 + fst (autoTable e 60 (table_body a fecha)),
                    snd (autoTable e 60 (table_body a fecha)) + 4)
                   (blocks_of e a))"
    if g: "generateAttentionPDF e a = Inr (d, f)" and fm: "format e (date a) = Some fecha"
  proof -
    from generate_Inr [OF g] obtain dl where l: "layout e a = Inr dl" and d: "d = stampFooters e dl"
      by blast
    from layout_place [OF fm] l have
      m: "map unfont (drawn dl) =
          map unfont
            [(1, Rect 0 0 (pageW e) 40),
             (1, Text (js ''I.E.P. VALORES Y CIENCIAS'') (pageW e / 2) 17 AlignCenter 20 Bold),
             (1, Text ([0xC1] @ js ''rea de Psicolog'' @ [0xED] @ js ''a'') (pageW e / 2) 28
                   AlignCenter 12 Normal),
             (1, Text (js ''REGISTRO DE ATENCI'' @ [0xD3] @ js ''N PSICOL'' @ [0xD3] @ js ''GICA'')
                   (pageW e / 2) 52 AlignCenter 14 Bold),
             (1, Table 60 (table_body a fecha))]
          @ place e (blocks_of e a)
              (1 + fst (autoTable e 60 (table_body a fecha)),
               snd (autoTable e 60 (table_body a fecha)) + 4)"
      and n: "npages dl =
            fst (foldl (move_on e)
                   (1 + fst (autoTable e 60 (table_body a fecha)),
                    snd (autoTable e 60 (table_body a fecha)) + 4)
                   (blocks_of e a))"
      by auto
    have nd: "npages d = npages dl" unfolding d by (rule npages_stampFooters)
    have "map unfont (drawn d) = map unfont (drawn dl) @ map unfont (concat (map (\<lambda>p.
              [(p, Text (footer_text e p) (pageW e / 2) (pageH e - 8) AlignCenter 8 Normal),
               (p, Text (page_indicator p (npages d)) (pageW e - marginR) (pageH e - 8)
                     AlignRight 8 Normal)]) [1..<Suc (npages d)]))"
      unfolding nd unfolding d drawn_stampFooters by (simp only: map_append)
    then show ?thesis unfolding m using n nd by simp
  qed
  show ?thesis using 1 2 3 4 5 by blast
qed

theorem page_break_before_overflow_witness:
  "list_all (within_margin (a4 240)) (drawn (fst (projr (generateAttentionPDF (a4 240) three_lines))))
   \<and> map unfont (take 12 (drop 5 (drawn (fst (projr (generateAttentionPDF (a4 240) three_lines))))))
     = [(1, Text (js ''Motivo de Consulta:'') 16 250 AlignLeft 0 Normal),
        (1, Text (js ''uno'') 16 256 AlignLeft 0 Normal),
        (2, Text (js ''Registro de Atenci'' @ [0xF3] @ js ''n Psicol'' @ [0xF3] @ js ''gica ''
                    @ [0x2014] @ js '' continuaci'' @ [0xF3] @ js ''n'') 194 14 AlignRight 0 Normal),
        (2, Text (js ''dos'') 16 22 AlignLeft 0 Normal),
        (2, Text (js ''tres'') 16 29 AlignLeft 0 Normal),
        (2, Text (js ''Observaciones:'') 16 44 AlignLeft 0 Normal),
        (2, Text (js ''o'') 16 50 AlignLeft 0 Normal),
        (2, Text (js ''Recomendaciones / Plan de Acci'' @ [0xF3] @ js ''n:'') 16 65 AlignLeft 0 Normal),
        (2, Text (js ''r'') 16 71 AlignLeft 0 Normal),
        (2, Line 65 90 145 90),
        (2, Text (js ''Firma del Profesional'') 105 95 AlignCenter 0 Normal),
        (2, Text (js ''Psic. Principal'') 105 100 AlignCenter 0 Normal)]
   \<and> (1, Text (js ''uno'') 16 256 AlignLeft 11 Normal)
        \<in> set (drawn (fst (projr (generateAttentionPDF (a4 240) three_lines))))
   \<and> (2, Text (js ''Registro de Atenci'' @ [0xF3] @ js ''n Psicol'' @ [0xF3] @ js ''gica '' @ [0x2014]
                 @ js '' continuaci'' @ [0xF3] @ js ''n'') 194 14 AlignRight 8 Italic)
        \<in> set (drawn (fst (projr (generateAttentionPDF (a4 240) three_lines))))
   \<and> (2, Text (js ''dos'') 16 22 AlignLeft 8 Italic)
        \<in> set (drawn (fst (projr (generateAttentionPDF (a4 240) three_lines))))"
proof -
  let ?e = "a4 240"
  have h: "22 + 30 \<le> pageH ?e - marginB" by (simp add: a4_fields marginB_def)
  have f: "format ?e (date three_lines) = Some (js ''2026-02-20'')"
    by (simp add: three_lines_def a4_fields iso_date_example)
  from generate_cases(1) [OF f] obtain d0 where
    l: "layout ?e three_lines = Inr d0" and
    g: "generateAttentionPDF ?e three_lines = Inr (stampFooters ?e d0, file_name three_lines)"
    by blast
  let ?d = "stampFooters ?e d0"
  note inst = page_break_before_overflow [where e = ?e and a = three_lines and d = ?d
      and f = "file_name three_lines" and fecha = "js ''2026-02-20''"]
  have w: "list_all (within_margin ?e) (drawn ?d)"
    using inst h g by blast
  have m: "map unfont (drawn ?d) =
          map unfont
            [(1, Rect 0 0 (pageW ?e) 40),
             (1, Text (js ''I.E.P. VALORES Y CIENCIAS'') (pageW ?e / 2) 17 AlignCenter 20 Bold),
             (1, Text ([0xC1] @ js ''rea de Psicolog'' @ [0xED] @ js ''a'') (pageW ?e / 2) 28
                   AlignCenter 12 Normal),
             (1, Text (js ''REGISTRO DE ATENCI'' @ [0xD3] @ js ''N PSICOL'' @ [0xD3] @ js ''GICA'')
                   (pageW ?e / 2) 52 AlignCenter 14 Bold),
             (1, Table 60 (table_body three_lines (js ''2026-02-20'')))]
          @ place ?e (blocks_of ?e three_lines)
              (1 + fst (autoTable ?e 60 (table_body three_lines (js ''2026-02-20''))),
               snd (autoTable ?e 60 (table_body three_lines (js ''2026-02-20''))) + 4)
          @ map unfont (concat (map (\<lambda>p.
              [(p, Text (footer_text ?e p) (pageW ?e / 2) (pageH ?e - 8) AlignCenter 8 Normal),
               (p, Text (page_indicator p (npages ?d)) (pageW ?e - marginR) (pageH ?e - 8)
                     AlignRight 8 Normal)]) [1..<Suc (npages ?d)]))"
    using inst g f by blast
  have st: "(1 + fst (autoTable ?e 60 (table_body three_lines (js ''2026-02-20''))),
               snd (autoTable ?e 60 (table_body three_lines (js ''2026-02-20''))) + 4) = (1, 244)"
    by (simp add: a4_fields)
  have b: "map unfont (take 12 (drop 5 (drawn ?d))) = take 12 (drop 5 (map unfont (drawn ?d)))"
    by (simp only: take_map drop_map)
  have body: "map unfont (take 12 (drop 5 (drawn ?d))) =
      place ?e (blocks_of ?e three_lines) (1, 244)"
    unfolding b m st place_three_lines by simp
  have "(1, Text (js ''uno'') 16 256 AlignLeft 11 Normal) \<in> set (drawn d0)"
    and "(2, Text (js ''Registro de Atenci'' @ [0xF3] @ js ''n Psicol'' @ [0xF3] @ js ''gica '' @ [0x2014]
                 @ js '' continuaci'' @ [0xF3] @ js ''n'') 194 14 AlignRight 8 Italic) \<in> set (drawn d0)"
    and "(2, Text (js ''dos'') 16 22 AlignLeft 8 Italic) \<in> set (drawn d0)"
    using layout_three_lines(2,3,4) l by simp_all
  then have "(1, Text (js ''uno'') 16 256 AlignLeft 11 Normal) \<in> set (drawn ?d)"
    and "(2, Text (js ''Registro de Atenci'' @ [0xF3] @ js ''n Psicol'' @ [0xF3] @ js ''gica '' @ [0x2014]
                 @ js '' continuaci'' @ [0xF3] @ js ''n'') 194 14 AlignRight 8 Italic) \<in> set (drawn ?d)"
    and "(2, Text (js ''dos'') 16 22 AlignLeft 8 Italic) \<in> set (drawn ?d)"
    by (simp_all add: drawn_stampFooters del: upt_Suc)
  with w body g show ?thesis unfolding place_three_lines by simp
qed

lemma replace_ws_word:
  "list_all (\<lambda>c. \<not> is_space c) w \<Longrightarrow> replace_ws (w @ rest) = w @ replace_ws rest"
  by (induction w) simp_all

lemma dropWhile_space_stop: "rest = [] \<or> \<not> is_space (hd rest) \<Longrightarrow> dropWhile is_space rest = rest"
  by (cases rest) auto

lemma replace_ws_run:
  assumes "sp \<noteq> []" and "list_all is_space sp" and "rest = [] \<or> \<not> is_space (hd rest)"
  shows "replace_ws (sp @ rest) = 0x5F # replace_ws rest"
proof -
  from assms(1) obtain c sp' where sp: "sp = c # sp'" by (cases sp) auto
  with assms(2) have c: "is_space c" and sp': "list_all is_space sp'" by simp_all
  have "dropWhile is_space (sp' @ rest) = dropWhile is_space rest"
    using sp' by (rule dropWhile_all_space)
  also have "\<dots> = rest" using assms(3) by (rule dropWhile_space_stop)
  finally show ?thesis using c sp by simp
qed

lemma replace_ws_no_space: "list_all (\<lambda>c. \<not> is_space c) (replace_ws s)"
  by (induction s rule: replace_ws.induct) (simp_all add: is_space_def)

text \<open>
  Claim C9: the name under which either export saves its document is \<open>Atencion_\<close>, the student
  name with every maximal run of whitespace replaced by one underscore, an underscore, the
  date string and \<open>.pdf\<close>; an export whose date formats does save under that name, and two
  exports of records equal in student name and date save under the same name. The replacement
  leaves a word without whitespace as it is, turns a run of whitespace after it into one
  underscore, and leaves no whitespace in its result. Whitespace is what \<^verbatim>\<open>\s\<close> matches,
  as \<open>is_space\<close> lists it.
\<close>

theorem file_name_from_name_and_date:
  "(generateAttentionPDF e a = Inr (d, f) \<longrightarrow>
      f = js ''Atencion_'' @ replace_ws (student_name a) @ js ''_'' @ date a @ js ''.pdf'')
   \<and> (generateAttentionPDF_lib e a = Inr (d, f) \<longrightarrow>
      f = js ''Atencion_'' @ replace_ws (student_name a) @ js ''_'' @ date a @ js ''.pdf'')
   \<and> (format e (date a) = Some fecha \<longrightarrow>
      (\<exists>d. generateAttentionPDF e a =
            Inr (d, js ''Atencion_'' @ replace_ws (student_name a) @ js ''_'' @ date a @ js ''.pdf'')) \<and>
      (\<exists>d. generateAttentionPDF_lib e a =
            Inr (d, js ''Atencion_'' @ replace_ws (student_name a) @ js ''_'' @ date a @ js ''.pdf'')))
   \<and> (generateAttentionPDF e a = Inr (d, f) \<longrightarrow> generateAttentionPDF e' b = Inr (d', f') \<longrightarrow>
      student_name a = student_name b \<longrightarrow> date a = date b \<longrightarrow> f = f')
   \<and> (list_all (\<lambda>c. \<not> is_space c) w \<longrightarrow> replace_ws w = w)
   \<and> (list_all (\<lambda>c. \<not> is_space c) w \<longrightarrow> sp \<noteq> [] \<longrightarrow> list_all is_space sp \<longrightarrow>
      (rest = [] \<or> \<not> is_space (hd rest)) \<longrightarrow>
      replace_ws (w @ sp @ rest) = w @ js ''_'' @ replace_ws rest)
   \<and> list_all (\<lambda>c. \<not> is_space c) (replace_ws (student_name a))
   \<and> (is_space c \<longleftrightarrow>
        c \<in> {0x09, 0x0A, 0x0B, 0x0C, 0x0D, 0x20, 0xA0, 0x1680, 0x2028, 0x2029, 0x202F, 0x205F,
              0x3000, 0xFEFF} \<or> (0x2000 \<le> c \<and> c \<le> 0x200A))"
proof -
  have 1: "f = js ''Atencion_'' @ replace_ws (student_name a) @ js ''_'' @ date a @ js ''.pdf''"
    if "generateAttentionPDF e a = Inr (d, f)" for e a d f
    using generate_Inr [OF that] by (auto simp: file_name_def)
  have 2: "f = js ''Atencion_'' @ replace_ws (student_name a) @ js ''_'' @ date a @ js ''.pdf''"
    if "generateAttentionPDF_lib e a = Inr (d, f)"
    using lib_cases(3) [OF that] by (simp add: file_name_def)
  have 3: "(\<exists>d. generateAttentionPDF e a =
            Inr (d, js ''Atencion_'' @ replace_ws (student_name a) @ js ''_'' @ date a @ js ''.pdf'')) \<and>
      (\<exists>d. generateAttentionPDF_lib e a =
            Inr (d, js ''Atencion_'' @ replace_ws (student_name a) @ js ''_'' @ date a @ js ''.pdf''))"
    if "format e (date a) = Some fecha"
    using generate_cases(1) [OF that] lib_cases(1) [OF that] by (auto simp: file_name_def)
  have 4: "f = f'"
    if "generateAttentionPDF e a = Inr (d, f)" "generateAttentionPDF e' b = Inr (d', f')"
       "student_name a = student_name b" "date a = date b"
    using 1 [OF that(1)] 1 [OF that(2)] that(3,4) by simp
  have 5: "replace_ws w = w" if "list_all (\<lambda>c. \<not> is_space c) w"
    using replace_ws_word [OF that, of "[]"] by simp
  have 6: "replace_ws (w @ sp @ rest) = w @ js ''_'' @ replace_ws rest"
    if "list_all (\<lambda>c. \<not> is_space c) w" "sp \<noteq> []" "list_all is_space sp"
       "rest = [] \<or> \<not> is_space (hd rest)"
    using replace_ws_word [OF that(1), of "sp @ rest"] replace_ws_run [OF that(2,3,4)]
    by (simp add: js_def)
  have 7: "list_all (\<lambda>c. \<not> is_space c) (replace_ws (student_name a))"
    by (rule replace_ws_no_space)
  have 8: "is_space c \<longleftrightarrow>
        c \<in> {0x09, 0x0A, 0x0B, 0x0C, 0x0D, 0x20, 0xA0, 0x1680, 0x2028, 0x2029, 0x202F, 0x205F,
              0x3000, 0xFEFF} \<or> (0x2000 \<le> c \<and> c \<le> 0x200A)"
    by (simp add: is_space_def)
  show ?thesis using 1 2 3 4 5 6 7 8 by blast
qed

theorem file_name_from_name_and_date_witness:
  "student_name blank = js ''Ana'' @ [0xA0, 0x3000] @ js ''Torres''
   \<and> snd (projr (generateAttentionPDF (a4 100) blank)) = js ''Atencion_Ana_Torres_2026-02-20.pdf''
   \<and> snd (projr (generateAttentionPDF_lib (a4 100) blank)) = js ''Atencion_Ana_Torres_2026-02-20.pdf''"
proof -
  have f: "format (a4 100) (date blank) = Some (js ''2026-02-20'')"
    by (simp add: blank_def a4_fields iso_date_example)
  have n: "js ''Atencion_'' @ replace_ws (student_name blank) @ js ''_'' @ date blank @ js ''.pdf''
      = js ''Atencion_Ana_Torres_2026-02-20.pdf''"
    by (simp add: blank_def is_space_def js_def)
  have s: "student_name blank = js ''Ana'' @ [0xA0, 0x3000] @ js ''Torres''"
    by (simp add: blank_def)
  from file_name_from_name_and_date [where e = "a4 100" and a = blank and fecha = "js ''2026-02-20''"] f
  obtain d d' where
    "generateAttentionPDF (a4 100) blank =
       Inr (d, js ''Atencion_'' @ replace_ws (student_name blank) @ js ''_'' @ date blank @ js ''.pdf'')"
    "generateAttentionPDF_lib (a4 100) blank =
       Inr (d', js ''Atencion_'' @ replace_ws (student_name blank) @ js ''_'' @ date blank @ js ''.pdf'')"
    by blast
  then have "snd (projr (generateAttentionPDF (a4 100) blank)) = js ''Atencion_Ana_Torres_2026-02-20.pdf''
     \<and> snd (projr (generateAttentionPDF_lib (a4 100) blank)) = js ''Atencion_Ana_Torres_2026-02-20.pdf''"
    by (simp only: n sum.sel snd_conv simp_thms)
  then show ?thesis using s by blast
qed


end
